theory Spec2Isabelle
  imports Complex_Main "HOL-Library.Word"
begin

unbundle bit_operations_syntax

section \<open>Numbers\<close>

text \<open>
  The program is \<^verbatim>\<open>src/src/main.ts\<close>. Its lengths are JavaScript numbers, that is IEEE 754
  binary64 values. A finite number is modelled as the real it denotes, and every
  arithmetic operation of the program as the exact operation followed by rounding to the
  nearest binary64 value, ties to even. Negation is exact, and so is the conversion of
  a grid index or a grid size.

  The exponent range is not bounded: overflow to \<^verbatim>\<open>Infinity\<close>, gradual underflow, \<^verbatim>\<open>NaN\<close> and
  the sign of zero are outside the model. A division by a zero grid size (\<^verbatim>\<open>Infinity\<close> in
  JavaScript, \<open>0\<close> in HOL) only feeds the body of loops that do not run for that size, so
  no result below depends on it.
\<close>

text \<open>Rounding a real to the nearest integer, a tie to the even one.\<close>

definition roundTiesToEven :: "real \<Rightarrow> int" where
  "roundTiesToEven t =
     (let f = \<lfloor>t\<rfloor>; r = t - of_int f
      in if r < 1 / 2 then f else if 1 / 2 < r then f + 1 else if even f then f else f + 1)"

text \<open>The exponent \<open>e\<close> of a positive real \<open>x\<close>: \<open>2 powi e \<le> x < 2 powi (e + 1)\<close>.\<close>

function binade :: "real \<Rightarrow> int" where
  "binade x =
     (if x \<le> 0 then 0
      else if 2 \<le> x then binade (x / 2) + 1
      else if x < 1 then binade (x * 2) - 1
      else 0)"
  by pat_completeness auto
termination
proof (relation "measure (\<lambda>x. nat \<bar>\<lfloor>log 2 x\<rfloor>\<bar>)", goal_cases)
  case 1
  show ?case by simp
next
  case (2 x)
  then have x: "0 < x" "2 \<le> x" by simp_all
  have "log 2 (x / 2) = log 2 x - 1" using x by (simp add: log_divide)
  moreover have "1 \<le> log 2 x" using x by (simp add: le_log_iff)
  ultimately show ?case by simp
next
  case (3 x)
  then have x: "0 < x" "x < 1" by simp_all
  have "log 2 (x * 2) = log 2 x + 1" using x by (simp add: log_mult)
  then have step: "\<lfloor>log 2 (x * 2)\<rfloor> = \<lfloor>log 2 x\<rfloor> + 1" by simp
  have "log 2 x < 0" using x by simp
  then have neg: "\<lfloor>log 2 x\<rfloor> < 0" by (simp add: floor_less_iff)
  have "nat \<bar>\<lfloor>log 2 (x * 2)\<rfloor>\<bar> < nat \<bar>\<lfloor>log 2 x\<rfloor>\<bar>"
    unfolding step using neg by linarith
  then show ?case by simp
qed

declare binade.simps [simp del]

text \<open>
  The nearest binary64 value: the significand has 53 bits, so a number of exponent \<open>e\<close>
  is rounded to a multiple of \<open>2 powi (e - 52)\<close>.
\<close>

definition round64 :: "real \<Rightarrow> real" where
  "round64 x =
     (let q = 2 powi (binade \<bar>x\<bar> - 52)
      in of_int (roundTiesToEven (x / q)) * q)"

text \<open>The operators \<^verbatim>\<open>+\<close>, \<^verbatim>\<open>-\<close>, \<^verbatim>\<open>*\<close> and \<^verbatim>\<open>/\<close> on numbers.\<close>

definition num_add :: "real \<Rightarrow> real \<Rightarrow> real" where
  "num_add a b = round64 (a + b)"

definition num_sub :: "real \<Rightarrow> real \<Rightarrow> real" where
  "num_sub a b = round64 (a - b)"

definition num_mul :: "real \<Rightarrow> real \<Rightarrow> real" where
  "num_mul a b = round64 (a * b)"

definition num_div :: "real \<Rightarrow> real \<Rightarrow> real" where
  "num_div a b = round64 (a / b)"

text \<open>
  Half the distance between \<open>1\<close> and the next binary64 value: the relative error of one
  rounding is at most this.
\<close>

definition unitRoundoff :: real where
  "unitRoundoff = 1 / 2 ^ 53"

section \<open>Constants\<close>

definition barcodeSizeMm :: real where
  "barcodeSizeMm = 80"

definition baseThicknessMm :: real where
  "baseThicknessMm = 5"

definition qrThicknessMm :: real where
  "qrThicknessMm = 2"

definition qrBorderMm :: real where
  "qrBorderMm = 5"

datatype error = RangeError string

section \<open>The module grid\<close>

text \<open>
  The encoder (\<^verbatim>\<open>qrcodegen\<close>) is not part of the program text; its result is taken as a
  parameter: an object with a \<^verbatim>\<open>size\<close> and a lookup \<^verbatim>\<open>getModule(x, y)\<close>.
\<close>

record QrCode =
  qr_size :: nat
  getModule :: "nat \<Rightarrow> nat \<Rightarrow> bool"

section \<open>Scene objects\<close>

text \<open>
  \<^verbatim>\<open>new THREE.BoxGeometry(width, height, depth)\<close>: a box centred at the origin of its mesh,
  extending \<open>width\<close> along x, \<open>height\<close> along y and \<open>depth\<close> along z.
\<close>

record BoxGeometry =
  width :: real
  height :: real
  depth :: real

text \<open>
  \<^verbatim>\<open>new THREE.Mesh(geometry, material)\<close> followed by \<^verbatim>\<open>position.set(x, y, z)\<close>. Of the material
  only its colour is kept: \<^verbatim>\<open>0x404040\<close> for a dark module, \<^verbatim>\<open>0xffffff\<close> for the base plate.
\<close>

record Mesh =
  geometry :: BoxGeometry
  color :: nat
  position :: "real \<times> real \<times> real"

definition darkColor :: nat where
  "darkColor = 0x404040"

definition lightColor :: nat where
  "lightColor = 0xffffff"

text \<open>
  The scene holds references to objects: the point light added by the constructor and
  groups. A group is shared between the scene and the field \<^verbatim>\<open>qrGroup\<close>, so groups live
  in a store indexed by reference and both places hold the reference.
\<close>

datatype Object3D = PointLight | GroupRef nat

record ThreeDScene =
  scene :: "Object3D list"
  qrGroup :: nat
  groups :: "nat \<Rightarrow> Mesh list"
  nextRef :: nat

text \<open>The constructor: the light is added to the scene, the first group is not.\<close>

definition newThreeDScene :: ThreeDScene where
  "newThreeDScene =
     \<lparr>scene = [PointLight], qrGroup = 0, groups = (\<lambda>r. []), nextRef = 1\<rparr>"

text \<open>\<^verbatim>\<open>this.scene.remove(obj)\<close>: drops the object from the children when it is one.\<close>

definition scene_remove :: "Object3D \<Rightarrow> ThreeDScene \<Rightarrow> ThreeDScene" where
  "scene_remove obj s = s\<lparr>scene := remove1 obj (scene s)\<rparr>"

text \<open>
  \<^verbatim>\<open>this.scene.add(obj)\<close>: detaches the object from its parent (only the scene can be one
  here) and appends it to the children.
\<close>

definition scene_add :: "Object3D \<Rightarrow> ThreeDScene \<Rightarrow> ThreeDScene" where
  "scene_add obj s = s\<lparr>scene := remove1 obj (scene s) @ [obj]\<rparr>"

text \<open>\<^verbatim>\<open>this.qrGroup = new THREE.Group()\<close>: a fresh, empty group.\<close>

definition new_qrGroup :: "ThreeDScene \<Rightarrow> ThreeDScene" where
  "new_qrGroup s =
     s\<lparr>qrGroup := nextRef s, groups := (groups s)(nextRef s := []), nextRef := Suc (nextRef s)\<rparr>"

text \<open>\<^verbatim>\<open>this.qrGroup.add(cube)\<close>: appends the mesh to the children of the current group.\<close>

definition qrGroup_add :: "Mesh \<Rightarrow> ThreeDScene \<Rightarrow> ThreeDScene" where
  "qrGroup_add cube s = s\<lparr>groups := (groups s)(qrGroup s := groups s (qrGroup s) @ [cube])\<rparr>"

section \<open>Building the geometry\<close>

definition drawBarcodeModule :: "real \<Rightarrow> real \<Rightarrow> real \<Rightarrow> real \<Rightarrow> ThreeDScene \<Rightarrow> ThreeDScene" where
  "drawBarcodeModule x y size' thickness s =
     (let geometry' = \<lparr>width = size', height = size', depth = thickness\<rparr>;
          cube = \<lparr>geometry = geometry', color = darkColor,
                  position = (x, - y, num_div thickness 2)\<rparr>
      in qrGroup_add cube s)"

definition drawBarcodeBackground :: "real \<Rightarrow> real \<Rightarrow> real \<Rightarrow> ThreeDScene \<Rightarrow> ThreeDScene" where
  "drawBarcodeBackground height' width' thickness s =
     (let geometry' = \<lparr>width = height', height = width', depth = thickness\<rparr>;
          cube = \<lparr>geometry = geometry', color = lightColor,
                  position = (0, 0, num_div (- thickness) 2)\<rparr>
      in qrGroup_add cube s)"

text \<open>
  The expression \<^verbatim>\<open>k * scale - barcodeSize / 2 + scale / 2\<close> that \<^verbatim>\<open>drawBarcode\<close> evaluates for
  a column and for a row.
\<close>

definition cellCentre :: "real \<Rightarrow> real \<Rightarrow> nat \<Rightarrow> real" where
  "cellCentre scale barcodeSize k =
     num_add (num_sub (num_mul (real k) scale) (num_div barcodeSize 2)) (num_div scale 2)"

text \<open>The body of the inner loop of \<^verbatim>\<open>drawBarcode\<close>, at column \<open>x\<close> of row \<open>y\<close>.\<close>

definition drawCell :: "QrCode \<Rightarrow> real \<Rightarrow> real \<Rightarrow> nat \<Rightarrow> nat \<Rightarrow> ThreeDScene \<Rightarrow> ThreeDScene" where
  "drawCell qr scale barcodeSize y x s =
     (if getModule qr x y
      then drawBarcodeModule
             (cellCentre scale barcodeSize x)
             (cellCentre scale barcodeSize y)
             scale
             qrThicknessMm s
      else s)"

text \<open>
  \<^verbatim>\<open>drawBarcode(qr, border)\<close>. The result pairs the outcome (the exception thrown, or
  normal completion) with the state the call leaves behind, so that what a failing call
  has already mutated stays visible.
\<close>

definition drawBarcode :: "QrCode \<Rightarrow> real \<Rightarrow> ThreeDScene \<Rightarrow> (error + unit) \<times> ThreeDScene" where
  "drawBarcode qr border s =
     (if border \<le> 0 then (Inl (RangeError ''Value out of range''), s)
      else
        let s1 = scene_remove (GroupRef (qrGroup s)) s;
            s2 = new_qrGroup s1;
            s3 = scene_add (GroupRef (qrGroup s2)) s2;
            scale = num_div barcodeSizeMm (real (qr_size qr));
            barcodeSize = num_mul (real (qr_size qr)) scale;
            s4 = fold (\<lambda>y. fold (drawCell qr scale barcodeSize y) [0..<qr_size qr])
                   [0..<qr_size qr] s3;
            s5 = drawBarcodeBackground
                   (num_add barcodeSizeMm (num_mul border 2))
                   (num_add barcodeSizeMm (num_mul border 2))
                   baseThicknessMm s4
        in (Inr (), s5))"

text \<open>The solids of the model on display: the children of the current group.\<close>

definition solids :: "ThreeDScene \<Rightarrow> Mesh list" where
  "solids s = groups s (qrGroup s)"


text \<open>
  The mesh that one pass through the loop body adds for the module at \<open>c = (x, y)\<close>:
  the arguments \<^verbatim>\<open>drawBarcode\<close> passes, put through \<^verbatim>\<open>drawBarcodeModule\<close>.
\<close>

definition moduleCube :: "real \<Rightarrow> real \<Rightarrow> nat \<times> nat \<Rightarrow> Mesh" where
  "moduleCube scale barcodeSize c =
     \<lparr>geometry = \<lparr>width = scale, height = scale, depth = qrThicknessMm\<rparr>,
      color = darkColor,
      position = (cellCentre scale barcodeSize (fst c),
                  - cellCentre scale barcodeSize (snd c),
                  num_div qrThicknessMm 2)\<rparr>"

text \<open>The mesh that the call of \<^verbatim>\<open>drawBarcodeBackground\<close> in \<^verbatim>\<open>drawBarcode\<close> adds.\<close>

definition basePlate :: "real \<Rightarrow> Mesh" where
  "basePlate border =
     \<lparr>geometry = \<lparr>width = num_add barcodeSizeMm (num_mul border 2),
                  height = num_add barcodeSizeMm (num_mul border 2),
                  depth = baseThicknessMm\<rparr>,
      color = lightColor,
      position = (0, 0, num_div (- baseThicknessMm) 2)\<rparr>"

text \<open>
  The dark modules in the order the two loops visit them: rows \<open>y\<close> outermost, columns
  \<open>x\<close> within a row.
\<close>

definition rowModules :: "QrCode \<Rightarrow> nat \<Rightarrow> (nat \<times> nat) list" where
  "rowModules qr y = map (\<lambda>x. (x, y)) (filter (\<lambda>x. getModule qr x y) [0..<qr_size qr])"

definition darkModules :: "QrCode \<Rightarrow> (nat \<times> nat) list" where
  "darkModules qr = concat (map (rowModules qr) [0..<qr_size qr])"

definition append_cubes :: "Mesh list \<Rightarrow> ThreeDScene \<Rightarrow> ThreeDScene" where
  "append_cubes ms s = s\<lparr>groups := (groups s)(qrGroup s := groups s (qrGroup s) @ ms)\<rparr>"

section \<open>Extents of a mesh\<close>

text \<open>
  A box geometry is centred on the position of its mesh, so a mesh occupies
  \<open>[xMin, xMax] \<times> [yMin, yMax] \<times> [zMin, zMax]\<close>. Its footprint is the x/y rectangle.
  These are the exact extents of the box that the numbers of the mesh describe.
\<close>

definition posX :: "Mesh \<Rightarrow> real" where
  "posX m = fst (position m)"

definition posY :: "Mesh \<Rightarrow> real" where
  "posY m = fst (snd (position m))"

definition posZ :: "Mesh \<Rightarrow> real" where
  "posZ m = snd (snd (position m))"

definition xMin :: "Mesh \<Rightarrow> real" where
  "xMin m = posX m - width (geometry m) / 2"

definition xMax :: "Mesh \<Rightarrow> real" where
  "xMax m = posX m + width (geometry m) / 2"

definition yMin :: "Mesh \<Rightarrow> real" where
  "yMin m = posY m - height (geometry m) / 2"

definition yMax :: "Mesh \<Rightarrow> real" where
  "yMax m = posY m + height (geometry m) / 2"

definition zMin :: "Mesh \<Rightarrow> real" where
  "zMin m = posZ m - depth (geometry m) / 2"

definition zMax :: "Mesh \<Rightarrow> real" where
  "zMax m = posZ m + depth (geometry m) / 2"

definition footprint :: "Mesh \<Rightarrow> (real \<times> real) set" where
  "footprint m = {(u, v). xMin m \<le> u \<and> u \<le> xMax m \<and> yMin m \<le> v \<and> v \<le> yMax m}"

text \<open>
  How far the x extents and the y extents of two meshes overlap; not positive when they
  are apart.
\<close>

definition xOverlap :: "Mesh \<Rightarrow> Mesh \<Rightarrow> real" where
  "xOverlap a b = min (xMax a) (xMax b) - max (xMin a) (xMin b)"

definition yOverlap :: "Mesh \<Rightarrow> Mesh \<Rightarrow> real" where
  "yOverlap a b = min (yMax a) (yMax b) - max (yMin a) (yMin b)"

definition footprintInterior :: "Mesh \<Rightarrow> (real \<times> real) set" where
  "footprintInterior m = {(u, v). xMin m < u \<and> u < xMax m \<and> yMin m < v \<and> v < yMax m}"

definition interior :: "Mesh \<Rightarrow> (real \<times> real \<times> real) set" where
  "interior m = {(u, v, w). xMin m < u \<and> u < xMax m \<and> yMin m < v \<and> v < yMax m
                             \<and> zMin m < w \<and> w < zMax m}"

section \<open>The payload string\<close>

text \<open>
  A \<^verbatim>\<open>FormData\<close> is an ordered list of entries; a name may occur more than once. A value is
  a string or a file. Strings are lists of characters; the program only compares and
  concatenates them.
\<close>

datatype FormDataEntryValue = StringValue string | FileValue

type_synonym FormData = "(string \<times> FormDataEntryValue) list"

text \<open>\<^verbatim>\<open>data.get(name)\<close>: the first value under the name, or \<^verbatim>\<open>null\<close>.\<close>

fun formData_get :: "FormData \<Rightarrow> string \<Rightarrow> FormDataEntryValue option" where
  "formData_get [] name = None"
| "formData_get ((k, v) # es) name = (if k = name then Some v else formData_get es name)"

text \<open>\<^verbatim>\<open>data.has(name)\<close>.\<close>

definition formData_has :: "FormData \<Rightarrow> string \<Rightarrow> bool" where
  "formData_has data name = (formData_get data name \<noteq> None)"

text \<open>
  \<^verbatim>\<open>data.set(name, value)\<close>: replaces the first entry under the name and drops the others,
  or appends the entry when there is none.
\<close>

fun formData_set :: "FormData \<Rightarrow> string \<Rightarrow> FormDataEntryValue \<Rightarrow> FormData" where
  "formData_set [] name value = [(name, value)]"
| "formData_set ((k, v) # es) name value =
     (if k = name then (name, value) # filter (\<lambda>e. fst e \<noteq> name) es
      else (k, v) # formData_set es name value)"

text \<open>A value inside a template literal: \<^verbatim>\<open>`${v}`\<close>.\<close>

fun toString :: "FormDataEntryValue option \<Rightarrow> string" where
  "toString None = ''null''"
| "toString (Some (StringValue v)) = v"
| "toString (Some FileValue) = ''[object File]''"

text \<open>Truthiness: \<^verbatim>\<open>null\<close> and the empty string are falsy.\<close>

fun truthy :: "FormDataEntryValue option \<Rightarrow> bool" where
  "truthy None = False"
| "truthy (Some (StringValue v)) = (v \<noteq> [])"
| "truthy (Some FileValue) = True"

text \<open>\<^verbatim>\<open>v || d\<close> for a value \<open>v\<close> that may be \<^verbatim>\<open>null\<close>.\<close>

fun orElse :: "FormDataEntryValue option \<Rightarrow> FormDataEntryValue \<Rightarrow> FormDataEntryValue" where
  "orElse None d = d"
| "orElse (Some (StringValue v)) d = (if v = [] then d else StringValue v)"
| "orElse (Some FileValue) d = FileValue"

text \<open>\<^verbatim>\<open>parts.join(sep)\<close>.\<close>

fun join :: "string \<Rightarrow> string list \<Rightarrow> string" where
  "join sep [] = []"
| "join sep [p] = p"
| "join sep (p # q # ps) = p @ sep @ join sep (q # ps)"

definition getWifiEasyConnectUri :: "FormData \<Rightarrow> string" where
  "getWifiEasyConnectUri data =
     (let parts = [''S:'' @ toString (formData_get data ''ssid'')];
          parts = (if orElse (formData_get data ''security'') (StringValue ''none'')
                        \<noteq> StringValue ''none''
                   then parts @ [''T:'' @ toString (formData_get data ''security'')]
                              @ [''P:'' @ toString (formData_get data ''password'')]
                   else parts);
          parts = (if truthy (formData_get data ''hidden'')
                   then parts @ [''H:true'']
                   else parts)
      in ''WIFI:'' @ join '';'' parts)"

section \<open>Redrawing on submit\<close>

text \<open>
  The encoder is a parameter: \<^verbatim>\<open>encodeText(text, ecl)\<close> returns a grid or throws.
\<close>

datatype Ecc = LOW | MEDIUM | QUARTILE | HIGH

definition generateQrCode :: "(string \<Rightarrow> Ecc \<Rightarrow> error + QrCode) \<Rightarrow> string \<Rightarrow> error + QrCode" where
  "generateQrCode encodeText qrContent = (let errCorLvl = LOW in encodeText qrContent errCorLvl)"

text \<open>
  The submit listener that \<^verbatim>\<open>main\<close> installs, run on the entries of the form. An
  exception of the encoder leaves the listener before \<^verbatim>\<open>drawBarcode\<close> is called.
\<close>

definition onSubmit ::
  "(string \<Rightarrow> Ecc \<Rightarrow> error + QrCode) \<Rightarrow> FormData \<Rightarrow> ThreeDScene \<Rightarrow> (error + unit) \<times> ThreeDScene" where
  "onSubmit encodeText form s =
     (let data = form;
          data = (if \<not> formData_has data ''security''
                  then formData_set data ''security'' (StringValue ''WPA'')
                  else data);
          content = getWifiEasyConnectUri data
      in case generateQrCode encodeText content of
           Inl e \<Rightarrow> (Inl e, s)
         | Inr qr \<Rightarrow> drawBarcode qr qrBorderMm s)"

section \<open>Binary mesh export\<close>

text \<open>
  \<^verbatim>\<open>exportAsSTL\<close> hands the scene to the exporter of the graphics library
  (\<^verbatim>\<open>STLExporter.parse\<close> with \<^verbatim>\<open>binary: true\<close>) and the resulting bytes to the browser. The
  exporter's text is not among the sources; the definitions of this section that describe
  it follow section 4.3 of the specification and say so.
\<close>

type_synonym vec3 = "real \<times> real \<times> real"

record Triangle =
  normal :: vec3
  vertexA :: vec3
  vertexB :: vec3
  vertexC :: vec3

text \<open>
  Modelled from the spec: the exporter's face of a solid, missing from the sources. A
  face is two triangles with the face normal, wound alike.
\<close>

definition face :: "vec3 \<Rightarrow> vec3 \<Rightarrow> vec3 \<Rightarrow> vec3 \<Rightarrow> vec3 \<Rightarrow> Triangle list" where
  "face n a b c d =
     [\<lparr>normal = n, vertexA = a, vertexB = b, vertexC = c\<rparr>,
      \<lparr>normal = n, vertexA = a, vertexB = c, vertexC = d\<rparr>]"

text \<open>
  Modelled from the spec: the exporter's triangulation of a solid, missing from the
  sources. Six faces in the order -X, +X, -Y, +Y, -Z, +Z, each wound counter-clockwise
  seen from outside.
\<close>

definition boxTriangles :: "Mesh \<Rightarrow> Triangle list" where
  "boxTriangles m =
     (let x0 = xMin m; x1 = xMax m; y0 = yMin m; y1 = yMax m; z0 = zMin m; z1 = zMax m
      in face (- 1, 0, 0) (x0, y0, z0) (x0, y0, z1) (x0, y1, z1) (x0, y1, z0)
       @ face (1, 0, 0) (x1, y0, z0) (x1, y1, z0) (x1, y1, z1) (x1, y0, z1)
       @ face (0, - 1, 0) (x0, y0, z0) (x1, y0, z0) (x1, y0, z1) (x0, y0, z1)
       @ face (0, 1, 0) (x0, y1, z0) (x0, y1, z1) (x1, y1, z1) (x1, y1, z0)
       @ face (0, 0, - 1) (x0, y0, z0) (x0, y1, z0) (x1, y1, z0) (x1, y0, z0)
       @ face (0, 0, 1) (x0, y0, z1) (x1, y0, z1) (x1, y1, z1) (x0, y1, z1))"

text \<open>
  Modelled from the spec: the bytes of the exported stream. A byte is a known byte, or
  byte \<open>k\<close> of the single-precision encoding of a number; the rounding to single
  precision is not modelled, so those bytes stay symbolic.
\<close>

datatype octet = Byte "8 word" | FloatByte real nat

text \<open>
  Modelled from the spec: a 4-byte little-endian unsigned integer, and a 4-byte
  little-endian float.
\<close>

definition uint32le :: "32 word \<Rightarrow> octet list" where
  "uint32le w = map (\<lambda>k. Byte (ucast (drop_bit (8 * k) w))) [0, 1, 2, 3]"

definition float32le :: "real \<Rightarrow> octet list" where
  "float32le r = map (FloatByte r) [0, 1, 2, 3]"

text \<open>
  Modelled from the spec: the 50-byte record of a triangle, missing from the sources:
  the normal and the three vertices as twelve floats, then two zero bytes.
\<close>

definition vec3Bytes :: "vec3 \<Rightarrow> octet list" where
  "vec3Bytes v = (case v of (x, y, z) \<Rightarrow> float32le x @ float32le y @ float32le z)"

definition triangleBytes :: "Triangle \<Rightarrow> octet list" where
  "triangleBytes t =
     vec3Bytes (normal t) @ vec3Bytes (vertexA t) @ vec3Bytes (vertexB t) @ vec3Bytes (vertexC t)
     @ [Byte 0, Byte 0]"

text \<open>
  Modelled from the spec: the solids the exporter finds when it walks the scene, in
  order: the children of the groups in the scene. The light is not a solid.
\<close>

definition sceneMeshes :: "ThreeDScene \<Rightarrow> Mesh list" where
  "sceneMeshes s =
     concat (map (\<lambda>obj. case obj of PointLight \<Rightarrow> [] | GroupRef r \<Rightarrow> groups s r) (scene s))"

text \<open>
  Modelled from the spec: the mesh buffer of a list of solids and its serialization,
  missing from the sources: an 80-byte zero header, the triangle count as a 4-byte
  little-endian unsigned integer, then the records of the triangles.
\<close>

definition meshBuffer :: "Mesh list \<Rightarrow> Triangle list" where
  "meshBuffer ms = concat (map boxTriangles ms)"

definition serialize :: "Triangle list \<Rightarrow> octet list" where
  "serialize ts =
     replicate 80 (Byte 0) @ uint32le (of_nat (length ts)) @ concat (map triangleBytes ts)"

text \<open>\<^verbatim>\<open>exportAsSTL()\<close>: the bytes handed to \<^verbatim>\<open>saveArrayBuffer\<close>.\<close>

definition exportAsSTL :: "ThreeDScene \<Rightarrow> octet list" where
  "exportAsSTL s = serialize (meshBuffer (sceneMeshes s))"

text \<open>
  Reading the count field of a stream back: bytes 80 to 83, least significant first.
  The field consists of known bytes; a symbolic byte there reads as 0.
\<close>

fun byteValue :: "octet \<Rightarrow> 32 word" where
  "byteValue (Byte b) = ucast b"
| "byteValue (FloatByte r k) = 0"

definition headerCount :: "octet list \<Rightarrow> 32 word" where
  "headerCount bytes =
     (case take 4 (drop 80 bytes) of
        [b0, b1, b2, b3] \<Rightarrow>
          byteValue b0 OR push_bit 8 (byteValue b1) OR push_bit 16 (byteValue b2)
            OR push_bit 24 (byteValue b3)
      | _ \<Rightarrow> 0)"

section \<open>Sample inputs\<close>

text \<open>
  Grids of a given size: without a dark module, with the single dark module \<open>(0, 0)\<close>,
  and with the dark modules on the diagonal.
\<close>

definition blankGrid :: "nat \<Rightarrow> QrCode" where
  "blankGrid n = \<lparr>qr_size = n, getModule = (\<lambda>x y. False)\<rparr>"

definition cornerGrid :: "nat \<Rightarrow> QrCode" where
  "cornerGrid n = \<lparr>qr_size = n, getModule = (\<lambda>x y. x = 0 \<and> y = 0)\<rparr>"

definition diagonalGrid :: "nat \<Rightarrow> QrCode" where
  "diagonalGrid n = \<lparr>qr_size = n, getModule = (\<lambda>x y. x = y)\<rparr>"

text \<open>The grid of a given size whose dark modules are the listed cells.\<close>

definition gridOf :: "nat \<Rightarrow> (nat \<times> nat) list \<Rightarrow> QrCode" where
  "gridOf n cells = \<lparr>qr_size = n, getModule = (\<lambda>x y. (x, y) \<in> set cells)\<rparr>"

text \<open>An encoder that rejects every text.\<close>

definition rejectingEncoder :: "string \<Rightarrow> Ecc \<Rightarrow> error + QrCode" where
  "rejectingEncoder text' ecl = Inl (RangeError ''Data too long'')"

section \<open>Rounding\<close>

lemma roundTiesToEven_close: "\<bar>of_int (roundTiesToEven t) - t\<bar> \<le> 1 / 2"
proof -
  have "of_int \<lfloor>t\<rfloor> \<le> t" "t < of_int \<lfloor>t\<rfloor> + 1" by linarith+
  then show ?thesis
    by (auto simp: roundTiesToEven_def Let_def)
qed

lemma binade_lower: "0 < x \<Longrightarrow> 2 powi binade x \<le> x"
proof (induction x rule: binade.induct)
  case (1 x)
  show ?case
  proof (cases "2 \<le> x")
    case True
    with 1 have "2 powi binade (x / 2) \<le> x / 2" by simp
    moreover have "binade x = binade (x / 2) + 1"
      using True by (subst binade.simps) simp
    ultimately show ?thesis
      by (simp add: power_int_add)
  next
    case False
    show ?thesis
    proof (cases "x < 1")
      case True
      with 1 False have "2 powi binade (x * 2) \<le> x * 2" by simp
      moreover have "binade x = binade (x * 2) - 1"
        using True 1(3) by (subst binade.simps) simp
      ultimately show ?thesis
        by (simp add: power_int_diff)
    next
      case False
      with \<open>\<not> 2 \<le> x\<close> 1(3) have "binade x = 0"
        by (subst binade.simps) simp
      with False show ?thesis by simp
    qed
  qed
qed

lemma round64_zero: "round64 0 = 0"
  by (simp add: round64_def roundTiesToEven_def binade.simps)

lemma round64_error: "\<bar>round64 x - x\<bar> \<le> \<bar>x\<bar> / 2 ^ 53"
proof (cases "x = 0")
  case True
  then show ?thesis by (simp add: round64_zero)
next
  case False
  define q :: real where "q = 2 powi (binade \<bar>x\<bar> - 52)"
  have q: "0 < q" by (simp add: q_def)
  have "round64 x - x = (of_int (roundTiesToEven (x / q)) - x / q) * q"
    using q by (simp add: round64_def q_def [symmetric] Let_def algebra_simps)
  then have "\<bar>round64 x - x\<bar> = \<bar>of_int (roundTiesToEven (x / q)) - x / q\<bar> * q"
    using q by (simp add: abs_mult)
  also have "\<dots> \<le> 1 / 2 * q"
    using roundTiesToEven_close [of "x / q"] q by (intro mult_right_mono) simp_all
  also have "\<dots> = 2 powi binade \<bar>x\<bar> / 2 ^ 53"
    by (simp add: q_def power_int_diff)
  also have "\<dots> \<le> \<bar>x\<bar> / 2 ^ 53"
    using binade_lower [of "\<bar>x\<bar>"] False by (simp add: divide_right_mono)
  finally show ?thesis .
qed

lemma round64_close: "\<bar>x\<bar> \<le> B \<Longrightarrow> \<bar>round64 x - x\<bar> \<le> B / 2 ^ 53"
  using round64_error [of x] by (simp add: field_simps)

lemma unitRoundoff_value: "unitRoundoff * 9007199254740992 = 1"
  by (simp add: unitRoundoff_def)

lemma unitRoundoff_pos: "0 < unitRoundoff"
  by (simp add: unitRoundoff_def)

lemma round64_within: "\<bar>x\<bar> \<le> B \<Longrightarrow> \<bar>round64 x - x\<bar> \<le> B * unitRoundoff"
  using round64_close [of x B] by (simp add: unitRoundoff_def)

lemmas round64_eval = round64_def roundTiesToEven_def Let_def binade.simps num_add_def
  num_sub_def num_mul_def num_div_def

text \<open>The numbers of the base plate at the border 5.\<close>

lemma basePlate_5:
  "basePlate 5 = \<lparr>geometry = \<lparr>width = 90, height = 90, depth = 5\<rparr>, color = lightColor,
                   position = (0, 0, - 5 / 2)\<rparr>"
  by (simp add: basePlate_def barcodeSizeMm_def baseThicknessMm_def num_add_def num_mul_def
      num_div_def round64_def roundTiesToEven_def Let_def binade.simps)

lemma half_baseThickness: "num_div (- baseThicknessMm) 2 = - baseThicknessMm / 2"
  by (simp add: baseThicknessMm_def num_div_def round64_def roundTiesToEven_def Let_def
      binade.simps)

lemma half_qrThickness: "num_div qrThicknessMm 2 = qrThicknessMm / 2"
  by (simp add: qrThicknessMm_def num_div_def round64_def roundTiesToEven_def Let_def
      binade.simps)

section \<open>The loops of drawBarcode\<close>

lemma append_cubes_Nil: "append_cubes [] s = s"
  by (simp add: append_cubes_def)

lemma append_cubes_append: "append_cubes ms (append_cubes ms' s) = append_cubes (ms' @ ms) s"
  by (simp add: append_cubes_def)

lemma qrGroup_add_append: "qrGroup_add cube s = append_cubes [cube] s"
  by (simp add: qrGroup_add_def append_cubes_def)

lemma drawCell_append:
  "drawCell qr scale bs y x s =
     append_cubes (map (moduleCube scale bs)
       (map (\<lambda>x. (x, y)) (filter (\<lambda>x. getModule qr x y) [x]))) s"
  by (simp add: drawCell_def drawBarcodeModule_def Let_def qrGroup_add_append moduleCube_def
      append_cubes_Nil)

lemma fold_drawCell:
  "fold (drawCell qr scale bs y) xs s =
     append_cubes (map (moduleCube scale bs)
       (map (\<lambda>x. (x, y)) (filter (\<lambda>x. getModule qr x y) xs))) s"
proof (induction xs arbitrary: s)
  case Nil
  show ?case by (simp add: append_cubes_Nil)
next
  case (Cons x xs)
  have "fold (drawCell qr scale bs y) (x # xs) s =
          fold (drawCell qr scale bs y) xs (drawCell qr scale bs y x s)"
    by simp
  also have "\<dots> = append_cubes (map (moduleCube scale bs)
                 (map (\<lambda>x. (x, y)) (filter (\<lambda>x. getModule qr x y) xs)))
               (drawCell qr scale bs y x s)"
    by (rule Cons.IH)
  also have "\<dots> = append_cubes (map (moduleCube scale bs)
                 (map (\<lambda>x. (x, y)) (filter (\<lambda>x. getModule qr x y) (x # xs)))) s"
    by (simp add: drawCell_append append_cubes_append append_cubes_Nil)
  finally show ?case .
qed

lemma fold_rows:
  "fold (\<lambda>y. fold (drawCell qr scale bs y) [0..<qr_size qr]) ys s =
     append_cubes (map (moduleCube scale bs) (concat (map (rowModules qr) ys))) s"
proof (induction ys arbitrary: s)
  case Nil
  show ?case by (simp add: append_cubes_Nil)
next
  case (Cons y ys)
  have "fold (\<lambda>y. fold (drawCell qr scale bs y) [0..<qr_size qr]) (y # ys) s =
          fold (\<lambda>y. fold (drawCell qr scale bs y) [0..<qr_size qr]) ys
            (fold (drawCell qr scale bs y) [0..<qr_size qr] s)"
    by simp
  also have "\<dots> = append_cubes (map (moduleCube scale bs) (concat (map (rowModules qr) ys)))
               (fold (drawCell qr scale bs y) [0..<qr_size qr] s)"
    by (rule Cons.IH)
  also have "\<dots> = append_cubes (map (moduleCube scale bs)
                 (concat (map (rowModules qr) (y # ys)))) s"
    by (simp add: fold_drawCell append_cubes_append rowModules_def)
  finally show ?case .
qed

lemma solids_append_cubes: "solids (append_cubes ms s) = solids s @ ms"
  by (simp add: solids_def append_cubes_def)

lemma drawBarcode_append:
  assumes "0 < border"
  shows "drawBarcode qr border s =
     (Inr (),
      append_cubes
        (map (moduleCube (num_div barcodeSizeMm (real (qr_size qr)))
                (num_mul (real (qr_size qr)) (num_div barcodeSizeMm (real (qr_size qr)))))
           (darkModules qr) @ [basePlate border])
        (scene_add (GroupRef (nextRef s))
           (new_qrGroup (scene_remove (GroupRef (qrGroup s)) s))))"
  using assms
  by (simp add: drawBarcode_def Let_def fold_rows drawBarcodeBackground_def qrGroup_add_append
      append_cubes_append basePlate_def darkModules_def new_qrGroup_def scene_remove_def)

lemma solids_drawBarcode:
  assumes "0 < border"
  shows "solids (snd (drawBarcode qr border s)) =
           map (moduleCube (num_div barcodeSizeMm (real (qr_size qr)))
                  (num_mul (real (qr_size qr)) (num_div barcodeSizeMm (real (qr_size qr)))))
             (darkModules qr) @ [basePlate border]"
  by (simp add: drawBarcode_append [OF assms] solids_append_cubes)
     (simp add: solids_def scene_add_def new_qrGroup_def scene_remove_def)

section \<open>The dark modules in visiting order\<close>

lemma set_rowModules:
  "set (rowModules qr y) = {(x, y') |x y'. x < qr_size qr \<and> y' = y \<and> getModule qr x y}"
  by (auto simp: rowModules_def)

lemma set_darkModules:
  "set (darkModules qr) = {(x, y). x < qr_size qr \<and> y < qr_size qr \<and> getModule qr x y}"
  by (auto simp: darkModules_def set_rowModules)

lemma distinct_rowModules: "distinct (rowModules qr y)"
  by (simp add: rowModules_def distinct_map inj_on_def)

lemma distinct_rows:
  "distinct ys \<Longrightarrow> distinct (concat (map (rowModules qr) ys))"
proof (induction ys)
  case Nil
  show ?case by simp
next
  case (Cons y ys)
  have "set (rowModules qr y) \<inter> set (concat (map (rowModules qr) ys)) = {}"
    using Cons.prems by (auto simp: set_rowModules)
  with Cons show ?case
    by (simp add: distinct_rowModules)
qed

lemma distinct_darkModules: "distinct (darkModules qr)"
  by (simp add: darkModules_def distinct_rows)

lemma filter_eq_singleton:
  "distinct xs \<Longrightarrow> a \<in> set xs \<Longrightarrow> filter (\<lambda>c. c = a) xs = [a]"
proof (induction xs)
  case Nil
  then show ?case by simp
next
  case (Cons x xs)
  show ?case
  proof (cases "x = a")
    case True
    with Cons.prems have "a \<notin> set xs" by simp
    then have "filter (\<lambda>c. c = a) xs = []" by (auto simp: filter_empty_conv)
    with True show ?thesis by simp
  next
    case False
    with Cons show ?thesis by simp
  qed
qed

lemma darkModules_product:
  "darkModules qr =
     map (\<lambda>(y, x). (x, y))
       (filter (\<lambda>(y, x). getModule qr x y) (List.product [0..<qr_size qr] [0..<qr_size qr]))"
  by (simp add: darkModules_def rowModules_def [abs_def] product_concat_map filter_concat
      map_concat comp_def filter_map)

lemma length_darkModules:
  "length (darkModules qr) =
     card {(x, y). x < qr_size qr \<and> y < qr_size qr \<and> getModule qr x y}"
  using distinct_card [OF distinct_darkModules, of qr] by (simp add: set_darkModules)

section \<open>Lengths in the exported stream\<close>

lemma length_boxTriangles: "length (boxTriangles m) = 12"
  by (simp add: boxTriangles_def face_def Let_def)

lemma length_triangleBytes: "length (triangleBytes t) = 50"
  by (simp add: triangleBytes_def vec3Bytes_def float32le_def split: prod.splits)

lemma length_concat_const:
  "(\<And>x. x \<in> set xs \<Longrightarrow> length (f x) = k) \<Longrightarrow> length (concat (map f xs)) = k * length xs"
  by (induction xs) auto

lemma length_meshBuffer: "length (meshBuffer ms) = 12 * length ms"
  by (simp add: meshBuffer_def length_concat_const [where k = 12] length_boxTriangles)

lemma length_serialize: "length (serialize ts) = 84 + 50 * length ts"
  by (simp add: serialize_def uint32le_def length_concat_const [where k = 50]
      length_triangleBytes)

lemma uint32_roundtrip:
  fixes w :: "32 word"
  shows "(ucast (ucast w :: 8 word) :: 32 word)
     OR push_bit 8 (ucast (ucast (drop_bit 8 w) :: 8 word))
     OR push_bit 16 (ucast (ucast (drop_bit 16 w) :: 8 word))
     OR push_bit 24 (ucast (ucast (drop_bit 24 w) :: 8 word)) = w"
proof (rule bit_word_eqI, goal_cases)
  case (1 n)
  then have "n < 32" by simp
  then consider "n < 8" | "8 \<le> n" "n < 16" | "16 \<le> n" "n < 24" | "24 \<le> n" "n < 32"
    by linarith
  then show ?case
    by cases (auto simp: bit_simps)
qed

lemma headerCount_serialize: "headerCount (serialize ts) = of_nat (length ts)"
  by (simp add: serialize_def headerCount_def uint32le_def uint32_roundtrip)

section \<open>Facts about the meshes\<close>

lemma color_distinct: "darkColor \<noteq> lightColor"
  by (simp add: darkColor_def lightColor_def)

lemma color_moduleCube: "color (moduleCube scale bs c) = darkColor"
  by (simp add: moduleCube_def)

lemma color_basePlate: "color (basePlate border) = lightColor"
  by (simp add: basePlate_def)

section \<open>Rounding error of the cell centres\<close>

lemma scale_bounds:
  fixes n :: nat
  assumes n: "0 < n"
  defines "s \<equiv> num_div barcodeSizeMm (real n)"
  shows "\<bar>real n * s - 80\<bar> \<le> 80 * unitRoundoff" and "0 < s" and "s \<le> 81"
proof -
  note u = unitRoundoff_value unitRoundoff_pos
  have "\<bar>s - 80 / real n\<bar> \<le> \<bar>80 / real n\<bar> / 2 ^ 53"
    using round64_error [of "80 / real n"] by (simp add: s_def num_div_def barcodeSizeMm_def)
  then have "real n * \<bar>s - 80 / real n\<bar> \<le> real n * (\<bar>80 / real n\<bar> / 2 ^ 53)"
    by (intro mult_left_mono) simp_all
  moreover have "real n * \<bar>s - 80 / real n\<bar> = \<bar>real n * s - 80\<bar>"
  proof -
    have "real n * \<bar>s - 80 / real n\<bar> = \<bar>real n * (s - 80 / real n)\<bar>"
      by (simp add: abs_mult)
    also have "real n * (s - 80 / real n) = real n * s - 80"
      using n by (simp add: algebra_simps)
    finally show ?thesis .
  qed
  moreover have "real n * (\<bar>80 / real n\<bar> / 2 ^ 53) = 80 * unitRoundoff"
    using n by (simp add: unitRoundoff_def)
  ultimately show ns: "\<bar>real n * s - 80\<bar> \<le> 80 * unitRoundoff" by simp
  then have pos: "0 < real n * s" using u by linarith
  then show s: "0 < s" using n by (simp add: zero_less_mult_iff)
  have "1 * s \<le> real n * s"
    using n s by (intro mult_right_mono) simp_all
  with ns u show "s \<le> 81" by linarith
qed

lemma cellCentre_close:
  fixes n k :: nat
  assumes n: "0 < n" and k: "k \<le> n"
  defines "s \<equiv> num_div barcodeSizeMm (real n)"
  defines "bs \<equiv> num_mul (real n) s"
  shows "\<bar>cellCentre s bs k - (real k * s - bs / 2 + s / 2)\<bar> \<le> 512 * unitRoundoff"
    and "\<bar>bs - real n * s\<bar> \<le> 81 * unitRoundoff"
proof -
  note u = unitRoundoff_value unitRoundoff_pos
  note sb = scale_bounds [OF n, folded s_def]
  define A where "A = real k * s"
  define p where "p = round64 A"
  define h where "h = round64 (bs / 2)"
  define d where "d = round64 (p - h)"
  define g where "g = round64 (s / 2)"
  define c where "c = round64 (d + g)"
  have c: "cellCentre s bs k = c"
    by (simp add: cellCentre_def c_def d_def g_def h_def p_def A_def num_add_def num_sub_def
        num_mul_def num_div_def)
  have N: "real n * s \<le> 81" "0 \<le> real n * s" using sb(1) u by linarith+
  have A: "0 \<le> A" "A \<le> 81"
  proof -
    show "0 \<le> A" using sb(2) by (simp add: A_def)
    have "real k * s \<le> real n * s" using k sb(2) by (intro mult_right_mono) simp_all
    with N show "A \<le> 81" by (simp add: A_def)
  qed
  have e1: "\<bar>p - A\<bar> \<le> 81 * unitRoundoff"
    unfolding p_def using A by (intro round64_within) simp
  show e2: "\<bar>bs - real n * s\<bar> \<le> 81 * unitRoundoff"
    unfolding bs_def num_mul_def using N by (intro round64_within) simp
  have bs: "\<bar>bs / 2\<bar> \<le> 41" using e2 N u by linarith
  have e3: "\<bar>h - bs / 2\<bar> \<le> 41 * unitRoundoff"
    unfolding h_def using bs by (rule round64_within)
  have ph: "\<bar>p - h\<bar> \<le> 124" using e1 A e3 bs u by linarith
  have e4: "\<bar>d - (p - h)\<bar> \<le> 124 * unitRoundoff"
    unfolding d_def using ph by (rule round64_within)
  have s2: "\<bar>s / 2\<bar> \<le> 41" using sb(2,3) by linarith
  have e5: "\<bar>g - s / 2\<bar> \<le> 41 * unitRoundoff"
    unfolding g_def using s2 by (rule round64_within)
  have dg: "\<bar>d + g\<bar> \<le> 167" using e4 ph e5 s2 u by linarith
  have e6: "\<bar>c - (d + g)\<bar> \<le> 167 * unitRoundoff"
    unfolding c_def using dg by (rule round64_within)
  have "\<bar>c - (A - bs / 2 + s / 2)\<bar> \<le> 512 * unitRoundoff"
    using e1 e3 e4 e5 e6 u by linarith
  then show "\<bar>cellCentre s bs k - (real k * s - bs / 2 + s / 2)\<bar> \<le> 512 * unitRoundoff"
    unfolding c A_def .
qed

lemma moduleCube_extents:
  "xMin (moduleCube scale bs c) = cellCentre scale bs (fst c) - scale / 2"
  "xMax (moduleCube scale bs c) = cellCentre scale bs (fst c) + scale / 2"
  "yMin (moduleCube scale bs c) = - cellCentre scale bs (snd c) - scale / 2"
  "yMax (moduleCube scale bs c) = - cellCentre scale bs (snd c) + scale / 2"
  by (simp_all add: moduleCube_def xMin_def xMax_def yMin_def yMax_def posX_def posY_def)

lemma basePlate_extents:
  "xMin (basePlate border) = - (num_add barcodeSizeMm (num_mul border 2) / 2)"
  "xMax (basePlate border) = num_add barcodeSizeMm (num_mul border 2) / 2"
  "yMin (basePlate border) = - (num_add barcodeSizeMm (num_mul border 2) / 2)"
  "yMax (basePlate border) = num_add barcodeSizeMm (num_mul border 2) / 2"
  by (simp_all add: basePlate_def xMin_def xMax_def yMin_def yMax_def posX_def posY_def)

text \<open>Neighbouring centres are a scale apart, up to rounding.\<close>

lemma cellCentre_step:
  fixes n k k' :: nat
  assumes n: "0 < n" and k: "k < k'" "k' \<le> n"
  defines "s \<equiv> num_div barcodeSizeMm (real n)"
  defines "bs \<equiv> num_mul (real n) s"
  shows "cellCentre s bs k + s \<le> cellCentre s bs k' + 1024 * unitRoundoff"
proof -
  have kn: "k \<le> n" using k by simp
  note a = cellCentre_close(1) [OF n kn, folded s_def bs_def]
  note b = cellCentre_close(1) [OF n k(2), folded s_def bs_def]
  have s: "0 < s" using scale_bounds(2) [OF n] by (simp add: s_def)
  have "real (Suc k) \<le> real k'" using k(1) by simp
  then have "real (Suc k) * s \<le> real k' * s"
    using s by (intro mult_right_mono) simp_all
  then have "real k * s + s \<le> real k' * s" by (simp add: algebra_simps)
  with a b show ?thesis unfolding bs_def by linarith
qed

lemma scale_large:
  fixes n :: nat
  assumes n: "0 < n" "n \<le> 2 ^ 48"
  shows "1024 * unitRoundoff < num_div barcodeSizeMm (real n)"
proof -
  define s where "s = num_div barcodeSizeMm (real n)"
  note sb = scale_bounds [OF n(1), folded s_def]
  note u = unitRoundoff_value unitRoundoff_pos
  have "real n \<le> 2 ^ 48" using n(2) by (metis of_nat_le_iff of_nat_numeral of_nat_power)
  then have "real n * s \<le> 2 ^ 48 * s" using sb(2) by (intro mult_right_mono) simp_all
  then have "real n * s \<le> 281474976710656 * s" by simp
  with sb(1) u show ?thesis unfolding s_def [symmetric] by linarith
qed

lemma cellCentre_strict:
  fixes n k k' :: nat
  assumes n: "0 < n" "n \<le> 2 ^ 48" and k: "k < k'" "k' \<le> n"
  shows "cellCentre (num_div barcodeSizeMm (real n))
           (num_mul (real n) (num_div barcodeSizeMm (real n))) k
         < cellCentre (num_div barcodeSizeMm (real n))
           (num_mul (real n) (num_div barcodeSizeMm (real n))) k'"
  using cellCentre_step [OF n(1) k] scale_large [OF n] by linarith

lemma cellCentre_inj:
  fixes n k k' :: nat
  assumes n: "0 < n" "n \<le> 2 ^ 48" and k: "k \<le> n" "k' \<le> n"
  shows "cellCentre (num_div barcodeSizeMm (real n))
           (num_mul (real n) (num_div barcodeSizeMm (real n))) k
         = cellCentre (num_div barcodeSizeMm (real n))
           (num_mul (real n) (num_div barcodeSizeMm (real n))) k' \<longleftrightarrow> k = k'"
proof (cases k k' rule: linorder_cases)
  case less
  with cellCentre_strict [OF n less k(2)] show ?thesis by simp
next
  case equal
  then show ?thesis by simp
next
  case greater
  with cellCentre_strict [OF n greater k(1)] show ?thesis by simp
qed

text \<open>The extent of a cell within the plate, up to rounding.\<close>

lemma cellCentre_range:
  fixes n k :: nat
  assumes n: "0 < n" and k: "k < n"
  defines "s \<equiv> num_div barcodeSizeMm (real n)"
  defines "bs \<equiv> num_mul (real n) s"
  shows "- 40 - 593 * unitRoundoff \<le> cellCentre s bs k - s / 2"
    and "cellCentre s bs k + s / 2 \<le> 40 + 593 * unitRoundoff"
proof -
  note u = unitRoundoff_value unitRoundoff_pos
  have kn: "k \<le> n" using k by simp
  note c = cellCentre_close [OF n kn, folded s_def bs_def]
  note sb = scale_bounds [OF n, folded s_def]
  have lo: "0 \<le> real k * s" using sb(2) by simp
  have "real (Suc k) \<le> real n" using k by simp
  then have "real (Suc k) * s \<le> real n * s"
    using sb(2) by (intro mult_right_mono) simp_all
  then have hi: "real k * s + s \<le> real n * s" by (simp add: algebra_simps)
  show "- 40 - 593 * unitRoundoff \<le> cellCentre s bs k - s / 2"
    unfolding bs_def using c sb(1) lo u by linarith
  show "cellCentre s bs k + s / 2 \<le> 40 + 593 * unitRoundoff"
    unfolding bs_def using c sb(1) hi u by linarith
qed

lemma plate_half_width:
  assumes "1 / 2 ^ 43 \<le> border"
  shows "40 + 593 * unitRoundoff \<le> num_add barcodeSizeMm (num_mul border 2) / 2"
proof -
  note u = unitRoundoff_value unitRoundoff_pos
  define f where "f = round64 (border * 2)"
  define W where "W = round64 (80 + f)"
  have b: "1 / 8796093022208 \<le> border" using assms by simp
  then have b0: "0 \<le> border * 2" by simp
  have "\<bar>f - border * 2\<bar> \<le> \<bar>border * 2\<bar> / 2 ^ 53"
    unfolding f_def by (rule round64_error)
  then have "\<bar>f - border * 2\<bar> \<le> border * 2 / 9007199254740992"
    using b0 by simp
  then have f: "border * 2 - border * 2 / 9007199254740992 \<le> f" by linarith
  then have f0: "0 \<le> 80 + f" using b0 by linarith
  have "\<bar>W - (80 + f)\<bar> \<le> \<bar>80 + f\<bar> / 2 ^ 53"
    unfolding W_def by (rule round64_error)
  then have "\<bar>W - (80 + f)\<bar> \<le> (80 + f) / 9007199254740992"
    using f0 by simp
  then have W: "80 + f - (80 + f) / 9007199254740992 \<le> W" by linarith
  have "40 + 593 * unitRoundoff \<le> W / 2"
    using b f W u(1) by argo
  then show ?thesis
    by (simp add: W_def f_def num_add_def num_mul_def barcodeSizeMm_def)
qed

section \<open>Module cubes: overlap and position on the plate\<close>

lemma singleton_list:
  assumes "distinct xs" and "set xs = {a}"
  shows "xs = [a]"
proof (cases xs)
  case Nil
  with assms(2) show ?thesis by simp
next
  case (Cons x rest)
  with assms have x: "x = a" and notin: "a \<notin> set rest" and sub: "set rest \<subseteq> {a}" by auto
  have "rest = []"
  proof (cases rest)
    case Nil
    then show ?thesis .
  next
    case (Cons y ys)
    then have y: "y \<in> set rest" by simp
    with sub have "y = a" by auto
    with y notin show ?thesis by simp
  qed
  with Cons x show ?thesis by simp
qed

lemma darkModules_cornerGrid: "0 < n \<Longrightarrow> darkModules (cornerGrid n) = [(0, 0)]"
  by (rule singleton_list [OF distinct_darkModules])
     (auto simp: set_darkModules cornerGrid_def)

lemma moduleCubes_overlap:
  fixes n :: nat
  assumes n: "0 < n" and c: "fst c < n" "snd c < n" and d: "fst d < n" "snd d < n"
    and neq: "c \<noteq> d"
  defines "s \<equiv> num_div barcodeSizeMm (real n)"
  defines "bs \<equiv> num_mul (real n) s"
  shows "xOverlap (moduleCube s bs c) (moduleCube s bs d) \<le> 1 / 2 ^ 43
         \<or> yOverlap (moduleCube s bs c) (moduleCube s bs d) \<le> 1 / 2 ^ 43"
proof -
  have u: "1024 * unitRoundoff = 1 / 2 ^ 43" by (simp add: unitRoundoff_def)
  have step: "cellCentre s bs k + s \<le> cellCentre s bs k' + 1 / 2 ^ 43"
    if "k < k'" "k' < n" for k k'
    using cellCentre_step [OF n that(1), of ] that(2) unfolding s_def bs_def u by simp
  consider "fst c < fst d" | "fst d < fst c" | "snd c < snd d" | "snd d < snd c"
    using neq by (metis linorder_neqE_nat prod_eqI)
  then show ?thesis
  proof cases
    case 1
    from step [OF 1 d(1)] have "xOverlap (moduleCube s bs c) (moduleCube s bs d) \<le> 1 / 2 ^ 43"
      unfolding xOverlap_def moduleCube_extents by linarith
    then show ?thesis ..
  next
    case 2
    from step [OF 2 c(1)] have "xOverlap (moduleCube s bs c) (moduleCube s bs d) \<le> 1 / 2 ^ 43"
      unfolding xOverlap_def moduleCube_extents by linarith
    then show ?thesis ..
  next
    case 3
    from step [OF 3 d(2)] have "yOverlap (moduleCube s bs c) (moduleCube s bs d) \<le> 1 / 2 ^ 43"
      unfolding yOverlap_def moduleCube_extents by linarith
    then show ?thesis ..
  next
    case 4
    from step [OF 4 c(2)] have "yOverlap (moduleCube s bs c) (moduleCube s bs d) \<le> 1 / 2 ^ 43"
      unfolding yOverlap_def moduleCube_extents by linarith
    then show ?thesis ..
  qed
qed

lemma moduleCube_within_plate:
  fixes n :: nat
  assumes n: "0 < n" and c: "fst c < n" "snd c < n" and b: "1 / 2 ^ 43 \<le> border"
  shows "footprint (moduleCube (num_div barcodeSizeMm (real n))
                      (num_mul (real n) (num_div barcodeSizeMm (real n))) c)
         \<subseteq> footprint (basePlate border)"
  using cellCentre_range [OF n c(1)] cellCentre_range [OF n c(2)] plate_half_width [OF b]
  by (auto simp: footprint_def moduleCube_extents basePlate_extents)

section \<open>Values at the sizes 3, 21 and 77\<close>

lemma cellCentre_21:
  "cellCentre (num_div barcodeSizeMm 21) (num_mul 21 (num_div barcodeSizeMm 21)) 0
     = - 5361428127822019 / 2 ^ 47"
  "cellCentre (num_div barcodeSizeMm 21) (num_mul 21 (num_div barcodeSizeMm 21)) 2
     = - 4289142502257615 / 2 ^ 47"
  "cellCentre (num_div barcodeSizeMm 21) (num_mul 21 (num_div barcodeSizeMm 21)) 3
     = - 7505999378950827 / 2 ^ 48"
  by (simp_all add: cellCentre_def barcodeSizeMm_def round64_eval)

lemma scale_21: "num_div barcodeSizeMm 21 = 4289142502257615 / 2 ^ 50"
  by (simp add: barcodeSizeMm_def round64_eval)

lemma cellCentre_77:
  "cellCentre (num_div barcodeSizeMm 77) (num_mul 77 (num_div barcodeSizeMm 77)) 0
     = - 2778194575325955 / 2 ^ 46"
  by (simp add: cellCentre_def barcodeSizeMm_def round64_eval)

lemma claimed_centre_77:
  "num_add (num_sub (num_mul 0 (num_div barcodeSizeMm 77)) (num_div barcodeSizeMm 2))
     (num_div (num_div barcodeSizeMm 77) 2)
     = - 5556389150651911 / 2 ^ 47"
  by (simp add: barcodeSizeMm_def round64_eval)

lemma cellCentre_3:
  "cellCentre (num_div barcodeSizeMm 3) (num_mul 3 (num_div barcodeSizeMm 3)) 0
     = - 3752999689475413 / 2 ^ 47"
  "cellCentre (num_div barcodeSizeMm 3) (num_mul 3 (num_div barcodeSizeMm 3)) 2
     = 1876499844737707 / 2 ^ 46"
  by (simp_all add: cellCentre_def barcodeSizeMm_def round64_eval)

lemma scale_3: "num_div barcodeSizeMm 3 = 7505999378950827 / 2 ^ 48"
  by (simp add: barcodeSizeMm_def round64_eval)

lemma plate_width_tiny: "num_add barcodeSizeMm (num_mul (1 / 2 ^ 60) 2) = 80"
  by (simp add: barcodeSizeMm_def round64_eval)

lemma darkModules_pair21: "darkModules (gridOf 21 [(2, 0), (3, 0)]) = [(2, 0), (3, 0)]"
  by (simp add: darkModules_def rowModules_def gridOf_def upt_rec)

lemma darkModules_single3: "darkModules (gridOf 3 [(2, 0)]) = [(2, 0)]"
  by (simp add: darkModules_def rowModules_def gridOf_def upt_rec)

lemma solids_pair21:
  "solids (snd (drawBarcode (gridOf 21 [(2, 0), (3, 0)]) qrBorderMm newThreeDScene)) =
     [moduleCube (num_div barcodeSizeMm 21) (num_mul 21 (num_div barcodeSizeMm 21)) (2, 0),
      moduleCube (num_div barcodeSizeMm 21) (num_mul 21 (num_div barcodeSizeMm 21)) (3, 0),
      basePlate 5]"
proof -
  have b: "(0::real) < 5" by simp
  have n: "qr_size (gridOf 21 [(2, 0), (3, 0)]) = 21" by (simp add: gridOf_def)
  show ?thesis
    by (simp add: qrBorderMm_def solids_drawBarcode [OF b] darkModules_pair21 n)
qed

lemma solids_single3:
  "solids (snd (drawBarcode (gridOf 3 [(2, 0)]) (1 / 2 ^ 60) newThreeDScene)) =
     [moduleCube (num_div barcodeSizeMm 3) (num_mul 3 (num_div barcodeSizeMm 3)) (2, 0),
      basePlate (1 / 2 ^ 60)]"
proof -
  have b: "(0::real) < 1 / 2 ^ 60" by simp
  have n: "qr_size (gridOf 3 [(2, 0)]) = 3" by (simp add: gridOf_def)
  show ?thesis
    by (simp only: solids_drawBarcode [OF b] darkModules_single3 n) simp
qed

lemma extents_pair21:
  "xMin (moduleCube (num_div barcodeSizeMm 21) (num_mul 21 (num_div barcodeSizeMm 21)) (2, 0))
     = - 4289142502257615 / 2 ^ 47 - 4289142502257615 / 2 ^ 51"
  "xMax (moduleCube (num_div barcodeSizeMm 21) (num_mul 21 (num_div barcodeSizeMm 21)) (2, 0))
     = - 4289142502257615 / 2 ^ 47 + 4289142502257615 / 2 ^ 51"
  "xMin (moduleCube (num_div barcodeSizeMm 21) (num_mul 21 (num_div barcodeSizeMm 21)) (3, 0))
     = - 7505999378950827 / 2 ^ 48 - 4289142502257615 / 2 ^ 51"
  "xMax (moduleCube (num_div barcodeSizeMm 21) (num_mul 21 (num_div barcodeSizeMm 21)) (3, 0))
     = - 7505999378950827 / 2 ^ 48 + 4289142502257615 / 2 ^ 51"
  "yMin (moduleCube (num_div barcodeSizeMm 21) (num_mul 21 (num_div barcodeSizeMm 21)) (k, 0))
     = 5361428127822019 / 2 ^ 47 - 4289142502257615 / 2 ^ 51"
  "yMax (moduleCube (num_div barcodeSizeMm 21) (num_mul 21 (num_div barcodeSizeMm 21)) (k, 0))
     = 5361428127822019 / 2 ^ 47 + 4289142502257615 / 2 ^ 51"
  unfolding moduleCube_extents
  by (simp_all only: fst_conv snd_conv cellCentre_21) (simp_all add: scale_21)

lemma moduleCube_height:
  "zMin (moduleCube scale bs c) = 0" "zMax (moduleCube scale bs c) = 2"
  by (simp_all add: zMin_def zMax_def posZ_def moduleCube_def half_qrThickness)
     (simp_all add: qrThicknessMm_def)

lemma extents_single3:
  "xMax (moduleCube (num_div barcodeSizeMm 3) (num_mul 3 (num_div barcodeSizeMm 3)) (2, 0))
     = 1876499844737707 / 2 ^ 46 + 7505999378950827 / 2 ^ 49"
  "xMin (moduleCube (num_div barcodeSizeMm 3) (num_mul 3 (num_div barcodeSizeMm 3)) (2, 0))
     = 1876499844737707 / 2 ^ 46 - 7505999378950827 / 2 ^ 49"
  "yMin (moduleCube (num_div barcodeSizeMm 3) (num_mul 3 (num_div barcodeSizeMm 3)) (2, 0))
     = 3752999689475413 / 2 ^ 47 - 7505999378950827 / 2 ^ 49"
  "yMax (moduleCube (num_div barcodeSizeMm 3) (num_mul 3 (num_div barcodeSizeMm 3)) (2, 0))
     = 3752999689475413 / 2 ^ 47 + 7505999378950827 / 2 ^ 49"
  unfolding moduleCube_extents
  by (simp_all only: fst_conv snd_conv cellCentre_3) (simp_all add: scale_3)

lemma extents_tiny_plate:
  "xMax (basePlate (1 / 2 ^ 60)) = 40"
  unfolding basePlate_extents plate_width_tiny by simp

section \<open>Facts about the exported stream\<close>

lemma unat_of_nat32: "n < 2 ^ 32 \<Longrightarrow> unat (of_nat n :: 32 word) = n"
  by (simp add: unat_of_nat)

lemma sceneMeshes_blank10:
  "sceneMeshes (snd (drawBarcode (blankGrid 10) qrBorderMm newThreeDScene)) = [basePlate 5]"
proof -
  have b: "(0::real) < 5" by simp
  have "darkModules (blankGrid 10) = []"
    by (simp add: darkModules_def rowModules_def blankGrid_def)
  then show ?thesis
    by (simp add: qrBorderMm_def drawBarcode_append [OF b] sceneMeshes_def append_cubes_def
        scene_add_def new_qrGroup_def scene_remove_def newThreeDScene_def)
qed

section \<open>Facts about form data\<close>

lemma formData_get_filter:
  "name \<noteq> other \<Longrightarrow>
     formData_get (filter (\<lambda>e. fst e \<noteq> other) data) name = formData_get data name"
  by (induction data) auto

lemma formData_get_filtered: "formData_get (filter (\<lambda>e. fst e \<noteq> name) data) name = None"
  by (induction data) auto

lemma join_snoc: "ps \<noteq> [] \<Longrightarrow> join sep (ps @ [p]) = join sep ps @ sep @ p"
  by (induction sep ps rule: join.induct) auto

section \<open>Module solids\<close>

text \<open>
  C1, as the specification states it, centres the solid of a module at
  \<open>x * scale - footprintSizeMm / 2 + scale / 2\<close>. The program subtracts
  \<open>barcodeSize / 2\<close> with \<open>barcodeSize = size * scale\<close>, and at the size 77 that product
  rounds to \<open>80 - 1 / 2 ^ 46\<close>. For the single dark module \<open>(0, 0)\<close> of a grid of
  that size the only dark solid is centred at \<open>- 2778194575325955 / 2 ^ 46\<close>, while the
  stated formula gives \<open>- 5556389150651911 / 2 ^ 47\<close> in binary64 arithmetic and
  \<open>- 3040 / 77\<close> in exact arithmetic: no dark solid is centred where the claim says.
\<close>

theorem drawBarcode_module_centre_counterexample:
  "length (solids (snd (drawBarcode (cornerGrid 77) qrBorderMm newThreeDScene))) = 2
   \<and> color (solids (snd (drawBarcode (cornerGrid 77) qrBorderMm newThreeDScene)) ! 0) = darkColor
   \<and> color (solids (snd (drawBarcode (cornerGrid 77) qrBorderMm newThreeDScene)) ! 1) = lightColor
   \<and> posX (solids (snd (drawBarcode (cornerGrid 77) qrBorderMm newThreeDScene)) ! 0)
       = - 2778194575325955 / 2 ^ 46
   \<and> num_add (num_sub (num_mul 0 (num_div barcodeSizeMm 77)) (num_div barcodeSizeMm 2))
         (num_div (num_div barcodeSizeMm 77) 2)
       = - 5556389150651911 / 2 ^ 47
   \<and> posX (solids (snd (drawBarcode (cornerGrid 77) qrBorderMm newThreeDScene)) ! 0)
       \<noteq> num_add (num_sub (num_mul 0 (num_div barcodeSizeMm 77)) (num_div barcodeSizeMm 2))
           (num_div (num_div barcodeSizeMm 77) 2)
   \<and> posX (solids (snd (drawBarcode (cornerGrid 77) qrBorderMm newThreeDScene)) ! 0)
       \<noteq> 0 * (barcodeSizeMm / 77) - barcodeSizeMm / 2 + barcodeSizeMm / 77 / 2"
proof -
  have b: "(0::real) < 5" by simp
  have n: "qr_size (cornerGrid 77) = 77" by (simp add: cornerGrid_def)
  have ss: "solids (snd (drawBarcode (cornerGrid 77) qrBorderMm newThreeDScene)) =
          [moduleCube (num_div barcodeSizeMm 77) (num_mul 77 (num_div barcodeSizeMm 77)) (0, 0),
           basePlate 5]"
    by (simp add: qrBorderMm_def solids_drawBarcode [OF b] darkModules_cornerGrid n)
  have exact: "0 * (barcodeSizeMm / 77) - barcodeSizeMm / 2 + barcodeSizeMm / 77 / 2
                 = (- 3040 / 77 :: real)"
    by (simp add: barcodeSizeMm_def)
  show ?thesis
    unfolding ss claimed_centre_77 exact
    by (simp add: color_moduleCube color_basePlate posX_def moduleCube_def cellCentre_77)
qed

text \<open>
  C1, amended: in a call of \<^verbatim>\<open>drawBarcode\<close> with a positive border, for every dark module
  at \<open>(x, y)\<close> of a grid of size at most \<open>2 ^ 48\<close>, exactly one dark solid is centred at
  \<open>cx = x * scale - barcodeSize / 2 + scale / 2\<close> and
  \<open>cy = - (y * scale - barcodeSize / 2 + scale / 2)\<close>, where
  \<open>scale = barcodeSizeMm / size\<close> and \<open>barcodeSize = size * scale\<close>, each operation
  rounded to binary64. That solid is \<open>scale\<close> wide and \<open>scale\<close> deep, \<open>qrThicknessMm\<close>
  high, centred at height \<open>qrThicknessMm / 2\<close>: its bottom face is at \<open>z = 0\<close> and its
  top face at \<open>z = qrThicknessMm\<close>.
\<close>

theorem drawBarcode_module_solid:
  assumes "0 < border" and "x < qr_size qr" and "y < qr_size qr" and "getModule qr x y"
    and "qr_size qr \<le> 2 ^ 48"
  shows "let scale = num_div barcodeSizeMm (real (qr_size qr));
             barcodeSize = num_mul (real (qr_size qr)) scale;
             cx = num_add (num_sub (num_mul (real x) scale) (num_div barcodeSize 2))
                    (num_div scale 2);
             cy = - num_add (num_sub (num_mul (real y) scale) (num_div barcodeSize 2))
                      (num_div scale 2);
             solid = \<lparr>geometry = \<lparr>width = scale, height = scale, depth = qrThicknessMm\<rparr>,
                      color = darkColor,
                      position = (cx, cy, qrThicknessMm / 2)\<rparr>
         in filter (\<lambda>m. color m = darkColor \<and> posX m = cx \<and> posY m = cy)
              (solids (snd (drawBarcode qr border s))) = [solid]
            \<and> zMin solid = 0 \<and> zMax solid = qrThicknessMm"
proof -
  define n where "n = qr_size qr"
  define scale where "scale = num_div barcodeSizeMm (real n)"
  define bs where "bs = num_mul (real n) scale"
  define cx where "cx = cellCentre scale bs x"
  define cy where "cy = - cellCentre scale bs y"
  define P where "P = (\<lambda>m. color m = darkColor \<and> posX m = cx \<and> posY m = cy)"
  have n: "0 < n" "n \<le> 2 ^ 48" using assms(2,5) by (simp_all add: n_def)
  have ss: "solids (snd (drawBarcode qr border s)) =
              map (moduleCube scale bs) (darkModules qr) @ [basePlate border]"
    by (simp add: solids_drawBarcode [OF assms(1)] scale_def bs_def n_def)
  have mem: "(x, y) \<in> set (darkModules qr)"
    using assms by (simp add: set_darkModules)
  have inj: "P (moduleCube scale bs c) \<longleftrightarrow> c = (x, y)" if "c \<in> set (darkModules qr)" for c
  proof -
    from that have c: "fst c \<le> n" "snd c \<le> n"
      by (auto simp: set_darkModules n_def)
    have xy: "x \<le> n" "y \<le> n" using assms(2,3) by (simp_all add: n_def)
    have "posX (moduleCube scale bs c) = cx \<longleftrightarrow> fst c = x"
      unfolding cx_def scale_def bs_def
      using cellCentre_inj [OF n c(1) xy(1)] by (simp add: moduleCube_def posX_def)
    moreover have "posY (moduleCube scale bs c) = cy \<longleftrightarrow> snd c = y"
      unfolding cy_def scale_def bs_def
      using cellCentre_inj [OF n c(2) xy(2)] by (simp add: moduleCube_def posY_def)
    ultimately show ?thesis
      by (simp add: P_def color_moduleCube prod_eq_iff)
  qed
  have "filter P (map (moduleCube scale bs) (darkModules qr)) =
          map (moduleCube scale bs) (filter (\<lambda>c. c = (x, y)) (darkModules qr))"
    unfolding filter_map comp_def
    by (rule arg_cong [where f = "map (moduleCube scale bs)"], rule filter_cong) (simp_all add: inj)
  also have "\<dots> = [moduleCube scale bs (x, y)]"
    by (simp add: filter_eq_singleton [OF distinct_darkModules mem])
  finally have dark: "filter P (map (moduleCube scale bs) (darkModules qr)) =
                        [moduleCube scale bs (x, y)]" .
  have plate: "\<not> P (basePlate border)"
    using color_distinct by (simp add: P_def color_basePlate)
  have "filter P (solids (snd (drawBarcode qr border s))) = [moduleCube scale bs (x, y)]"
    by (simp add: ss dark plate)
  moreover have "moduleCube scale bs (x, y) =
      \<lparr>geometry = \<lparr>width = scale, height = scale, depth = qrThicknessMm\<rparr>,
       color = darkColor, position = (cx, cy, qrThicknessMm / 2)\<rparr>"
    by (simp add: moduleCube_def cx_def cy_def half_qrThickness)
  ultimately show ?thesis
    by (simp add: Let_def P_def cx_def cy_def cellCentre_def bs_def scale_def n_def zMin_def
        zMax_def posZ_def)
qed

theorem drawBarcode_module_solid_witness:
  "0 < qr_size (cornerGrid 21) \<and> getModule (cornerGrid 21) 0 0
   \<and> qr_size (cornerGrid 21) \<le> 2 ^ 48
   \<and> filter (\<lambda>m. color m = darkColor \<and> posX m = - 5361428127822019 / 2 ^ 47
                 \<and> posY m = 5361428127822019 / 2 ^ 47)
     (solids (snd (drawBarcode (cornerGrid 21) 5 newThreeDScene))) =
     [\<lparr>geometry = \<lparr>width = 4289142502257615 / 2 ^ 50, height = 4289142502257615 / 2 ^ 50,
                    depth = 2\<rparr>,
       color = darkColor,
       position = (- 5361428127822019 / 2 ^ 47, 5361428127822019 / 2 ^ 47, 1)\<rparr>]"
proof -
  have h: "(0::real) < 5" "0 < qr_size (cornerGrid 21)" "getModule (cornerGrid 21) 0 0"
    "qr_size (cornerGrid 21) \<le> 2 ^ 48"
    by (simp_all add: cornerGrid_def)
  have n: "real (qr_size (cornerGrid 21)) = 21" by (simp add: cornerGrid_def)
  have c: "num_add (num_sub (num_mul (real (0::nat)) (num_div barcodeSizeMm 21))
             (num_div (num_mul 21 (num_div barcodeSizeMm 21)) 2))
             (num_div (num_div barcodeSizeMm 21) 2) = - 5361428127822019 / 2 ^ 47"
    using cellCentre_21(1) by (simp add: cellCentre_def)
  note t = drawBarcode_module_solid [OF h(1) h(2) h(2) h(3) h(4), of newThreeDScene,
      unfolded Let_def n, unfolded c, unfolded scale_21]
  from t h show ?thesis
    by (simp add: qrThicknessMm_def)
qed

section \<open>The base plate\<close>

text \<open>
  C2: a call of \<^verbatim>\<open>drawBarcode\<close> with a positive border produces exactly one light
  solid, the base plate. It measures \<open>barcodeSizeMm + border * 2\<close> (as the program
  computes it) in x and in y and \<open>baseThicknessMm\<close> in z, and is centred at
  \<open>(0, 0, - baseThicknessMm / 2)\<close>, so its top face is at \<open>z = 0\<close>. With the border 5 it
  is the box 90 by 90 by 5 centred at \<open>(0, 0)\<close>.
\<close>

theorem drawBarcode_base_plate:
  assumes "0 < border"
  shows "(let plate = \<lparr>geometry = \<lparr>width = num_add barcodeSizeMm (num_mul border 2),
                                    height = num_add barcodeSizeMm (num_mul border 2),
                                    depth = baseThicknessMm\<rparr>,
                       color = lightColor,
                       position = (0, 0, - baseThicknessMm / 2)\<rparr>
          in filter (\<lambda>m. color m = lightColor) (solids (snd (drawBarcode qr border s))) = [plate]
             \<and> zMax plate = 0)
         \<and> filter (\<lambda>m. color m = lightColor) (solids (snd (drawBarcode qr 5 s))) =
             [\<lparr>geometry = \<lparr>width = 90, height = 90, depth = 5\<rparr>, color = lightColor,
               position = (0, 0, - 5 / 2)\<rparr>]"
proof -
  have plate: "filter (\<lambda>m. color m = lightColor) (solids (snd (drawBarcode qr b s))) =
                 [basePlate b]" if "0 < b" for b
  proof -
    have "filter (\<lambda>m. color m = lightColor)
            (map (moduleCube (num_div barcodeSizeMm (real (qr_size qr)))
                    (num_mul (real (qr_size qr)) (num_div barcodeSizeMm (real (qr_size qr)))))
               (darkModules qr)) = []"
      using color_distinct by (simp add: filter_empty_conv color_moduleCube)
    then show ?thesis
      by (simp add: solids_drawBarcode [OF that] color_basePlate)
  qed
  have "zMax (basePlate border) = 0"
    by (simp add: basePlate_def zMax_def posZ_def half_baseThickness)
  with plate [OF assms] plate [of 5] show ?thesis
    by (simp add: Let_def basePlate_5)
       (simp add: basePlate_def half_baseThickness)
qed

theorem drawBarcode_base_plate_witness:
  "0 < qrBorderMm
   \<and> filter (\<lambda>m. color m = lightColor)
     (solids (snd (drawBarcode (cornerGrid 21) qrBorderMm newThreeDScene))) =
     [\<lparr>geometry = \<lparr>width = 90, height = 90, depth = 5\<rparr>, color = lightColor,
       position = (0, 0, - 5 / 2)\<rparr>]
   \<and> zMax \<lparr>geometry = \<lparr>width = 90, height = 90, depth = 5\<rparr>, color = lightColor,
       position = (0, 0, - 5 / 2)\<rparr> = 0"
proof -
  have h: "0 < qrBorderMm" by (simp add: qrBorderMm_def)
  note plate = drawBarcode_base_plate [OF h, of "cornerGrid 21" newThreeDScene, THEN conjunct2]
  then show ?thesis
    by (simp add: qrBorderMm_def zMax_def posZ_def)
qed

section \<open>Number and order of the solids\<close>

text \<open>
  C3: a call of \<^verbatim>\<open>drawBarcode\<close> with a positive border leaves as solids one dark solid
  per dark module, in row-major order (rows \<open>y\<close> outermost, columns \<open>x\<close> within a row),
  followed by the base plate; their number is the number of dark modules plus one.
\<close>

theorem drawBarcode_solid_count:
  assumes "0 < border"
  shows "solids (snd (drawBarcode qr border s)) =
           map (\<lambda>(y, x). moduleCube (num_div barcodeSizeMm (real (qr_size qr)))
                            (num_mul (real (qr_size qr)) (num_div barcodeSizeMm (real (qr_size qr))))
                            (x, y))
             (filter (\<lambda>(y, x). getModule qr x y)
                (List.product [0..<qr_size qr] [0..<qr_size qr]))
           @ [basePlate border]
         \<and> length (solids (snd (drawBarcode qr border s))) =
             card {(x, y). x < qr_size qr \<and> y < qr_size qr \<and> getModule qr x y} + 1"
proof
  show "solids (snd (drawBarcode qr border s)) =
           map (\<lambda>(y, x). moduleCube (num_div barcodeSizeMm (real (qr_size qr)))
                            (num_mul (real (qr_size qr)) (num_div barcodeSizeMm (real (qr_size qr))))
                            (x, y))
             (filter (\<lambda>(y, x). getModule qr x y)
                (List.product [0..<qr_size qr] [0..<qr_size qr]))
           @ [basePlate border]"
    by (simp add: solids_drawBarcode [OF assms] darkModules_product comp_def case_prod_unfold)
  show "length (solids (snd (drawBarcode qr border s))) =
             card {(x, y). x < qr_size qr \<and> y < qr_size qr \<and> getModule qr x y} + 1"
    by (simp add: solids_drawBarcode [OF assms] length_darkModules)
qed

theorem drawBarcode_solid_count_witness:
  "solids (snd (drawBarcode (cornerGrid 21) 5 newThreeDScene)) =
     [moduleCube (num_div 80 21) (num_mul 21 (num_div 80 21)) (0, 0), basePlate 5]
   \<and> length (solids (snd (drawBarcode (cornerGrid 21) 5 newThreeDScene))) = 2"
proof -
  have b: "(0::real) < 5" by simp
  have c: "{(x, y). x < qr_size (cornerGrid 21) \<and> y < qr_size (cornerGrid 21)
              \<and> getModule (cornerGrid 21) x y} = {(0, 0)}"
    by (auto simp: cornerGrid_def)
  have f: "filter (\<lambda>(y, x). getModule (cornerGrid 21) x y)
             (List.product [0..<qr_size (cornerGrid 21)] [0..<qr_size (cornerGrid 21)]) = [(0, 0)]"
    by (simp add: cornerGrid_def upt_rec)
  show ?thesis
    using drawBarcode_solid_count [OF b, of "cornerGrid 21" newThreeDScene]
    by (simp add: c f) (simp add: cornerGrid_def barcodeSizeMm_def)
qed

section \<open>Length of the exported stream\<close>

text \<open>
  C4: for every scene, the stream that \<^verbatim>\<open>exportAsSTL\<close> produces is
  \<open>84 + 50 * (12 * n)\<close> bytes long, where \<open>n\<close> is the number of solids in the scene
  (twelve triangles each). The count field of the header holds \<open>12 * n\<close> as a 32-bit
  value; when \<open>12 * n\<close> fits in 32 bits, the bytes after the first 84 are exactly as
  many 50-byte records as the count field says.
\<close>

theorem exportAsSTL_length:
  "length (exportAsSTL s) = 84 + 50 * (12 * length (sceneMeshes s))
   \<and> headerCount (exportAsSTL s) = of_nat (12 * length (sceneMeshes s))
   \<and> (12 * length (sceneMeshes s) < 2 ^ 32 \<longrightarrow>
        length (drop 84 (exportAsSTL s)) = 50 * unat (headerCount (exportAsSTL s)))"
proof -
  have len: "length (exportAsSTL s) = 84 + 50 * (12 * length (sceneMeshes s))"
    by (simp add: exportAsSTL_def length_serialize length_meshBuffer)
  have cnt: "headerCount (exportAsSTL s) = of_nat (12 * length (sceneMeshes s))"
    by (simp only: exportAsSTL_def headerCount_serialize length_meshBuffer)
  have "unat (headerCount (exportAsSTL s)) = 12 * length (sceneMeshes s)"
    if "12 * length (sceneMeshes s) < 2 ^ 32"
    unfolding cnt by (rule unat_of_nat32 [OF that])
  with len cnt show ?thesis by simp
qed

theorem exportAsSTL_length_witness:
  "12 * length (sceneMeshes (snd (drawBarcode (blankGrid 10) qrBorderMm newThreeDScene)))
     < (2::nat) ^ 32
   \<and> length (exportAsSTL (snd (drawBarcode (blankGrid 10) qrBorderMm newThreeDScene))) = 684
   \<and> headerCount (exportAsSTL (snd (drawBarcode (blankGrid 10) qrBorderMm newThreeDScene))) = 12
   \<and> length (drop 84 (exportAsSTL (snd (drawBarcode (blankGrid 10) qrBorderMm newThreeDScene))))
       = 50 * 12"
  using exportAsSTL_length [of "snd (drawBarcode (blankGrid 10) qrBorderMm newThreeDScene)"]
  by (simp add: sceneMeshes_blank10)

section \<open>Module solids overlap by rounding only and lie on the plate\<close>

text \<open>
  C5, as the specification states it, has no two module solids overlap and every module
  solid within the base plate. In a grid of size 21 with the border 5 the solids of the
  modules \<open>(2, 0)\<close> and \<open>(3, 0)\<close> overlap: the right face of the first lies
  \<open>3 / 2 ^ 50\<close> beyond the left face of the second, so their interiors meet. In a grid
  of size 3 with the border \<open>1 / 2 ^ 60\<close> the plate is 80 wide after rounding and the
  solid of the module \<open>(2, 0)\<close> reaches \<open>3 / 2 ^ 49\<close> beyond its edge.
\<close>

theorem module_solids_overlap_counterexample:
  "color (solids (snd (drawBarcode (gridOf 21 [(2, 0), (3, 0)]) qrBorderMm newThreeDScene)) ! 0)
     = darkColor
   \<and> color (solids (snd (drawBarcode (gridOf 21 [(2, 0), (3, 0)]) qrBorderMm newThreeDScene)) ! 1)
     = darkColor
   \<and> xMax (solids (snd (drawBarcode (gridOf 21 [(2, 0), (3, 0)]) qrBorderMm newThreeDScene)) ! 0)
     - xMin (solids (snd (drawBarcode (gridOf 21 [(2, 0), (3, 0)]) qrBorderMm newThreeDScene)) ! 1)
     = 3 / 2 ^ 50
   \<and> footprintInterior
       (solids (snd (drawBarcode (gridOf 21 [(2, 0), (3, 0)]) qrBorderMm newThreeDScene)) ! 0)
     \<inter> footprintInterior
       (solids (snd (drawBarcode (gridOf 21 [(2, 0), (3, 0)]) qrBorderMm newThreeDScene)) ! 1)
     \<noteq> {}
   \<and> interior
       (solids (snd (drawBarcode (gridOf 21 [(2, 0), (3, 0)]) qrBorderMm newThreeDScene)) ! 0)
     \<inter> interior
       (solids (snd (drawBarcode (gridOf 21 [(2, 0), (3, 0)]) qrBorderMm newThreeDScene)) ! 1)
     \<noteq> {}
   \<and> color (solids (snd (drawBarcode (gridOf 3 [(2, 0)]) (1 / 2 ^ 60) newThreeDScene)) ! 0)
     = darkColor
   \<and> color (solids (snd (drawBarcode (gridOf 3 [(2, 0)]) (1 / 2 ^ 60) newThreeDScene)) ! 1)
     = lightColor
   \<and> xMax (solids (snd (drawBarcode (gridOf 3 [(2, 0)]) (1 / 2 ^ 60) newThreeDScene)) ! 0)
     - xMax (solids (snd (drawBarcode (gridOf 3 [(2, 0)]) (1 / 2 ^ 60) newThreeDScene)) ! 1)
     = 3 / 2 ^ 49
   \<and> \<not> footprint (solids (snd (drawBarcode (gridOf 3 [(2, 0)]) (1 / 2 ^ 60) newThreeDScene)) ! 0)
       \<subseteq> footprint (solids (snd (drawBarcode (gridOf 3 [(2, 0)]) (1 / 2 ^ 60) newThreeDScene)) ! 1)"
proof -
  define a where "a = moduleCube (num_div barcodeSizeMm 21)
                        (num_mul 21 (num_div barcodeSizeMm 21)) (2, 0)"
  define b where "b = moduleCube (num_div barcodeSizeMm 21)
                        (num_mul 21 (num_div barcodeSizeMm 21)) (3, 0)"
  define u :: real where "u = - 7505999378950827 / 2 ^ 48 - 4289142502257615 / 2 ^ 51 + 1 / 2 ^ 50"
  define v :: real where "v = 5361428127822019 / 2 ^ 47"
  have col: "color a = darkColor" "color b = darkColor"
    by (simp_all add: a_def b_def color_moduleCube)
  have gap: "xMax a - xMin b = 3 / 2 ^ 50"
    unfolding a_def b_def extents_pair21 by simp
  have "(u, v) \<in> footprintInterior a" "(u, v) \<in> footprintInterior b"
    unfolding a_def b_def footprintInterior_def extents_pair21 u_def v_def by simp_all
  then have fp: "footprintInterior a \<inter> footprintInterior b \<noteq> {}" by blast
  have "(u, v, 1) \<in> interior a" "(u, v, 1) \<in> interior b"
    unfolding a_def b_def interior_def extents_pair21 moduleCube_height u_def v_def by simp_all
  then have vol: "interior a \<inter> interior b \<noteq> {}" by blast
  define a' where "a' = moduleCube (num_div barcodeSizeMm 3)
                          (num_mul 3 (num_div barcodeSizeMm 3)) (2, 0)"
  define p where "p = basePlate (1 / 2 ^ 60)"
  define u' :: real where "u' = 1876499844737707 / 2 ^ 46 + 7505999378950827 / 2 ^ 49"
  define v' :: real where "v' = 3752999689475413 / 2 ^ 47"
  have col': "color a' = darkColor" "color p = lightColor"
    by (simp_all add: a'_def p_def color_moduleCube color_basePlate)
  have gap': "xMax a' - xMax p = 3 / 2 ^ 49"
    unfolding a'_def p_def extents_single3 extents_tiny_plate by simp
  have "(u', v') \<in> footprint a'"
    unfolding a'_def footprint_def extents_single3 u'_def v'_def by simp
  moreover have "(u', v') \<notin> footprint p"
    unfolding p_def footprint_def extents_tiny_plate u'_def v'_def by simp
  ultimately have out: "\<not> footprint a' \<subseteq> footprint p" by blast
  show ?thesis
    unfolding solids_pair21 solids_single3
    using col gap fp vol col' gap' out by (simp add: a_def b_def a'_def p_def)
qed

text \<open>
  C5, amended: after a call of \<^verbatim>\<open>drawBarcode\<close> with a positive border, two different dark
  solids overlap by rounding error at most: their x extents or their y extents overlap
  by no more than \<open>1 / 2 ^ 43\<close>. When the border is at least \<open>1 / 2 ^ 43\<close>, the
  footprint of every dark solid lies within the footprint of the base plate.
\<close>

theorem module_solids_overlap_within_plate:
  assumes "0 < border"
  shows "(\<forall>i j. i < j \<and> j < length (solids (snd (drawBarcode qr border s)))
             \<and> color (solids (snd (drawBarcode qr border s)) ! i) = darkColor
             \<and> color (solids (snd (drawBarcode qr border s)) ! j) = darkColor
           \<longrightarrow> xOverlap (solids (snd (drawBarcode qr border s)) ! i)
                 (solids (snd (drawBarcode qr border s)) ! j) \<le> 1 / 2 ^ 43
               \<or> yOverlap (solids (snd (drawBarcode qr border s)) ! i)
                 (solids (snd (drawBarcode qr border s)) ! j) \<le> 1 / 2 ^ 43)
         \<and> (1 / 2 ^ 43 \<le> border \<longrightarrow>
             (\<forall>m \<in> set (solids (snd (drawBarcode qr border s))).
              \<forall>p \<in> set (solids (snd (drawBarcode qr border s))).
                color m = darkColor \<and> color p = lightColor \<longrightarrow> footprint m \<subseteq> footprint p))"
proof -
  define n where "n = qr_size qr"
  define scale where "scale = num_div barcodeSizeMm (real n)"
  define bs where "bs = num_mul (real n) scale"
  define dm where "dm = darkModules qr"
  define ss where "ss = solids (snd (drawBarcode qr border s))"
  have ss: "ss = map (moduleCube scale bs) dm @ [basePlate border]"
    by (simp add: ss_def solids_drawBarcode [OF assms] scale_def bs_def n_def dm_def)
  have len: "length ss = Suc (length dm)" by (simp add: ss)
  have cell: "fst c < n" "snd c < n" "0 < n" if "c \<in> set dm" for c
    using that by (auto simp: dm_def set_darkModules n_def)
  have dark_index: "k < length dm" if "k < length ss" "color (ss ! k) = darkColor" for k
  proof (rule ccontr)
    assume "\<not> k < length dm"
    with that(1) have "k = length dm" by (simp add: len)
    then have "ss ! k = basePlate border" by (simp add: ss nth_append)
    with that(2) color_distinct show False by (simp add: color_basePlate)
  qed
  have nth_dark: "ss ! k = moduleCube scale bs (dm ! k)" if "k < length dm" for k
    using that by (simp add: ss nth_append)
  have overlap: "xOverlap (ss ! i) (ss ! j) \<le> 1 / 2 ^ 43 \<or> yOverlap (ss ! i) (ss ! j) \<le> 1 / 2 ^ 43"
    if "i < j" "j < length ss" "color (ss ! i) = darkColor" "color (ss ! j) = darkColor" for i j
  proof -
    have j: "j < length dm" using dark_index that by simp
    then have i: "i < length dm" using that(1) by simp
    have ci: "dm ! i \<in> set dm" and cj: "dm ! j \<in> set dm" using i j by simp_all
    have neq: "dm ! i \<noteq> dm ! j"
      using distinct_darkModules [of qr] i j that(1) by (simp add: dm_def nth_eq_iff_index_eq)
    show ?thesis
      unfolding nth_dark [OF i] nth_dark [OF j] scale_def bs_def
      by (rule moduleCubes_overlap [OF cell(3) [OF ci] cell(1,2) [OF ci] cell(1,2) [OF cj] neq])
  qed
  have within: "footprint m \<subseteq> footprint p"
    if b: "1 / 2 ^ 43 \<le> border"
      and m: "m \<in> set ss" "color m = darkColor" and p: "p \<in> set ss" "color p = lightColor"
    for m p
  proof -
    have plate: "p = basePlate border"
      using p color_distinct by (auto simp: ss color_moduleCube)
    obtain c where c: "c \<in> set dm" "m = moduleCube scale bs c"
      using m color_distinct by (auto simp: ss color_basePlate)
    show ?thesis
      unfolding plate c(2) scale_def bs_def
      by (rule moduleCube_within_plate [OF cell(3) [OF c(1)] cell(1,2) [OF c(1)] b])
  qed
  have "\<forall>i j. i < j \<and> j < length ss \<and> color (ss ! i) = darkColor
            \<and> color (ss ! j) = darkColor
          \<longrightarrow> xOverlap (ss ! i) (ss ! j) \<le> 1 / 2 ^ 43 \<or> yOverlap (ss ! i) (ss ! j) \<le> 1 / 2 ^ 43"
    using overlap by blast
  moreover have "1 / 2 ^ 43 \<le> border \<longrightarrow>
        (\<forall>m \<in> set ss. \<forall>p \<in> set ss.
          color m = darkColor \<and> color p = lightColor \<longrightarrow> footprint m \<subseteq> footprint p)"
    using within by blast
  ultimately show ?thesis
    unfolding ss_def by (rule conjI)
qed

theorem module_solids_overlap_within_plate_witness:
  "(xOverlap (solids (snd (drawBarcode (gridOf 21 [(2, 0), (3, 0)]) qrBorderMm newThreeDScene)) ! 0)
      (solids (snd (drawBarcode (gridOf 21 [(2, 0), (3, 0)]) qrBorderMm newThreeDScene)) ! 1)
      \<le> 1 / 2 ^ 43
    \<or> yOverlap (solids (snd (drawBarcode (gridOf 21 [(2, 0), (3, 0)]) qrBorderMm newThreeDScene)) ! 0)
      (solids (snd (drawBarcode (gridOf 21 [(2, 0), (3, 0)]) qrBorderMm newThreeDScene)) ! 1)
      \<le> 1 / 2 ^ 43)
   \<and> footprint (solids (snd (drawBarcode (gridOf 21 [(2, 0), (3, 0)]) qrBorderMm newThreeDScene)) ! 0)
       \<subseteq> footprint (solids (snd (drawBarcode (gridOf 21 [(2, 0), (3, 0)]) qrBorderMm newThreeDScene)) ! 2)
   \<and> footprint (solids (snd (drawBarcode (gridOf 21 [(2, 0), (3, 0)]) qrBorderMm newThreeDScene)) ! 1)
       \<subseteq> footprint (solids (snd (drawBarcode (gridOf 21 [(2, 0), (3, 0)]) qrBorderMm newThreeDScene)) ! 2)"
proof -
  have b: "0 < qrBorderMm" "1 / 2 ^ 43 \<le> qrBorderMm" by (simp_all add: qrBorderMm_def)
  note t = module_solids_overlap_within_plate [OF b(1),
      of "gridOf 21 [(2, 0), (3, 0)]" newThreeDScene]
  have c: "color (moduleCube sc bs (2, 0)) = darkColor" "color (moduleCube sc bs (3, 0)) = darkColor"
    "color (basePlate 5) = lightColor" for sc bs
    by (simp_all add: color_moduleCube color_basePlate)
  note d = t [THEN conjunct1, rule_format, of 0 1]
  note w = t [THEN conjunct2, rule_format, OF b(2)]
  from d w [of _ "basePlate 5"] c show ?thesis
    by (simp add: solids_pair21)
qed

section \<open>The border precondition\<close>

text \<open>
  C6: for every grid (and every state of the scene), \<^verbatim>\<open>drawBarcode\<close> with border 0 and
  with border -1 throws the range error "Value out of range", and with border 5 it
  completes normally.
\<close>

theorem drawBarcode_border_precondition:
  "fst (drawBarcode qr 0 s) = Inl (RangeError ''Value out of range'')
   \<and> fst (drawBarcode qr (- 1) s) = Inl (RangeError ''Value out of range'')
   \<and> fst (drawBarcode qr 5 s) = Inr ()"
  by (simp add: drawBarcode_def Let_def)

section \<open>Preconditions that are checked\<close>

text \<open>
  C7, as the specification states it, asks for an error on a grid of size zero. The call
  below, on such a grid with the border 5, completes and leaves the base plate.
\<close>

theorem drawBarcode_zero_size_counterexample:
  "fst (drawBarcode (blankGrid 0) qrBorderMm newThreeDScene) = Inr ()
   \<and> solids (snd (drawBarcode (blankGrid 0) qrBorderMm newThreeDScene)) =
       [\<lparr>geometry = \<lparr>width = 90, height = 90, depth = 5\<rparr>, color = lightColor,
         position = (0, 0, - 5 / 2)\<rparr>]"
proof -
  have b: "(0::real) < 5" by simp
  have "darkModules (blankGrid 0) = []"
    by (simp add: darkModules_def blankGrid_def)
  then show ?thesis
    by (simp add: qrBorderMm_def drawBarcode_append [OF b] solids_append_cubes basePlate_5)
       (simp add: solids_def scene_add_def new_qrGroup_def scene_remove_def)
qed

text \<open>
  C7, amended: \<^verbatim>\<open>drawBarcode\<close> throws the range error when the border is not
  positive, and then leaves the state as it was; with a positive border it completes,
  and on a grid of size zero it leaves the base plate as the only solid. The footprint
  size is the positive constant \<open>barcodeSizeMm\<close>.
\<close>

theorem drawBarcode_preconditions:
  "(border \<le> 0 \<longrightarrow>
      fst (drawBarcode qr border s) = Inl (RangeError ''Value out of range'')
      \<and> snd (drawBarcode qr border s) = s)
   \<and> (0 < border \<longrightarrow> fst (drawBarcode qr border s) = Inr ())
   \<and> (0 < border \<and> qr_size qr = 0 \<longrightarrow>
        solids (snd (drawBarcode qr border s)) = [basePlate border])
   \<and> 0 < barcodeSizeMm"
proof -
  have "solids (snd (drawBarcode qr border s)) = [basePlate border]"
    if "0 < border" "qr_size qr = 0"
    using that by (simp add: solids_drawBarcode darkModules_def)
  then show ?thesis
    by (simp add: drawBarcode_def Let_def barcodeSizeMm_def)
qed

theorem drawBarcode_preconditions_witness:
  "fst (drawBarcode (blankGrid 0) (- 1) newThreeDScene) = Inl (RangeError ''Value out of range'')
   \<and> snd (drawBarcode (blankGrid 0) (- 1) newThreeDScene) = newThreeDScene
   \<and> fst (drawBarcode (blankGrid 0) 5 newThreeDScene) = Inr ()
   \<and> solids (snd (drawBarcode (blankGrid 0) 5 newThreeDScene)) = [basePlate 5]"
proof -
  have z: "qr_size (blankGrid 0) = 0" by (simp add: blankGrid_def)
  show ?thesis
    using drawBarcode_preconditions [of "- 1" "blankGrid 0" newThreeDScene]
      drawBarcode_preconditions [of 5 "blankGrid 0" newThreeDScene]
    by (simp add: z)
qed

section \<open>Failed redraws\<close>

text \<open>
  C8: when \<^verbatim>\<open>drawBarcode\<close> throws, the state after the call is the state before it; when
  the submit listener ends with an exception (of the encoder or of \<^verbatim>\<open>drawBarcode\<close>), the
  state after it is the state before it. The scene and the solids on display are part
  of that state.
\<close>

theorem failed_redraw_keeps_scene:
  "(fst (drawBarcode qr border s) = Inl e \<longrightarrow> snd (drawBarcode qr border s) = s)
   \<and> (fst (onSubmit encodeText form s) = Inl e \<longrightarrow> snd (onSubmit encodeText form s) = s)"
  by (auto simp: drawBarcode_def onSubmit_def Let_def qrBorderMm_def split: sum.splits if_splits)

theorem failed_redraw_keeps_scene_witness:
  "fst (drawBarcode (cornerGrid 21) 0 (snd (drawBarcode (diagonalGrid 2) 5 newThreeDScene)))
     = Inl (RangeError ''Value out of range'')
   \<and> snd (drawBarcode (cornerGrid 21) 0 (snd (drawBarcode (diagonalGrid 2) 5 newThreeDScene)))
     = snd (drawBarcode (diagonalGrid 2) 5 newThreeDScene)
   \<and> fst (onSubmit rejectingEncoder [(''ssid'', StringValue ''Home'')]
            (snd (drawBarcode (diagonalGrid 2) 5 newThreeDScene)))
     = Inl (RangeError ''Data too long'')
   \<and> snd (onSubmit rejectingEncoder [(''ssid'', StringValue ''Home'')]
            (snd (drawBarcode (diagonalGrid 2) 5 newThreeDScene)))
     = snd (drawBarcode (diagonalGrid 2) 5 newThreeDScene)"
proof -
  have a: "fst (drawBarcode (cornerGrid 21) 0 (snd (drawBarcode (diagonalGrid 2) 5 newThreeDScene)))
     = Inl (RangeError ''Value out of range'')"
    by (simp add: drawBarcode_def [of "cornerGrid 21"])
  have b: "fst (onSubmit rejectingEncoder [(''ssid'', StringValue ''Home'')]
            (snd (drawBarcode (diagonalGrid 2) 5 newThreeDScene)))
     = Inl (RangeError ''Data too long'')"
    by (simp add: onSubmit_def Let_def generateQrCode_def rejectingEncoder_def)
  show ?thesis
    using a b
      failed_redraw_keeps_scene [of "cornerGrid 21" 0 "snd (drawBarcode (diagonalGrid 2) 5 newThreeDScene)"
        "RangeError ''Value out of range''" ]
      failed_redraw_keeps_scene [of _ _ "snd (drawBarcode (diagonalGrid 2) 5 newThreeDScene)"
        "RangeError ''Data too long''" rejectingEncoder "[(''ssid'', StringValue ''Home'')]"]
    by simp
qed

section \<open>The payload scenarios\<close>

text \<open>
  C9: \<^verbatim>\<open>getWifiEasyConnectUri\<close> maps the form with ssid \<^verbatim>\<open>Home\<close> and security \<^verbatim>\<open>none\<close>,
  without a hidden entry or with an empty one, to \<^verbatim>\<open>WIFI:S:Home\<close>, and the form with
  ssid \<^verbatim>\<open>Home\<close>, security \<^verbatim>\<open>WPA\<close>, password \<^verbatim>\<open>secret\<close> and hidden \<^verbatim>\<open>true\<close> to
  \<^verbatim>\<open>WIFI:S:Home;T:WPA;P:secret;H:true\<close>.
\<close>

theorem getWifiEasyConnectUri_scenarios:
  "getWifiEasyConnectUri [(''ssid'', StringValue ''Home''), (''security'', StringValue ''none'')]
     = ''WIFI:S:Home''
   \<and> getWifiEasyConnectUri [(''ssid'', StringValue ''Home''), (''security'', StringValue ''none''),
        (''hidden'', StringValue [])]
     = ''WIFI:S:Home''
   \<and> getWifiEasyConnectUri [(''ssid'', StringValue ''Home''), (''security'', StringValue ''WPA''),
        (''password'', StringValue ''secret''), (''hidden'', StringValue ''true'')]
     = ''WIFI:S:Home;T:WPA;P:secret;H:true''"
  by (simp add: getWifiEasyConnectUri_def Let_def)

section \<open>The hidden segment\<close>

text \<open>
  C10: for every form, the result of \<^verbatim>\<open>getWifiEasyConnectUri\<close> is its result on the form
  without the hidden entries, followed by \<^verbatim>\<open>;H:true\<close> exactly when the first hidden entry
  is present and truthy, whatever its text: a hidden entry with the text \<^verbatim>\<open>false\<close> gives
  a string that ends in \<^verbatim>\<open>;H:true\<close>.
\<close>

theorem getWifiEasyConnectUri_hidden:
  "getWifiEasyConnectUri data =
     getWifiEasyConnectUri (filter (\<lambda>e. fst e \<noteq> ''hidden'') data)
       @ (if truthy (formData_get data ''hidden'') then '';H:true'' else [])
   \<and> getWifiEasyConnectUri [(''ssid'', StringValue ''Home''), (''hidden'', StringValue ''false'')]
     = ''WIFI:S:Home;H:true''"
proof -
  have "getWifiEasyConnectUri data =
     getWifiEasyConnectUri (filter (\<lambda>e. fst e \<noteq> ''hidden'') data)
       @ (if truthy (formData_get data ''hidden'') then '';H:true'' else [])"
    by (simp add: getWifiEasyConnectUri_def Let_def formData_get_filter formData_get_filtered
        join_snoc)
  moreover have "getWifiEasyConnectUri [(''ssid'', StringValue ''Home''), (''hidden'', StringValue ''false'')]
     = ''WIFI:S:Home;H:true''"
    by (simp add: getWifiEasyConnectUri_def Let_def)
  ultimately show ?thesis by (rule conjI)
qed

end
